theory Spec2Isabelle
  imports Complex_Main
begin

section \<open>JavaScript numbers\<close>

text \<open>
  Every quantity of the calculator is a JavaScript \<^verbatim>\<open>number\<close>. A finite number is
  modelled by the real it denotes (\<open>Fin\<close>): rounding to 53 bits, overflow and the sign of
  zero are outside the model. The three special values are kept, because the program can
  produce them from finite inputs (a division by zero) and compares against them
  (\<^verbatim>\<open>Infinity\<close> closes each bracket table). The operations below follow IEEE 754 on
  these four kinds of value; a zero divisor is taken as \<open>+0\<close>.
\<close>

datatype jsnum = Fin real | PInf | NInf | NaN

instantiation jsnum :: "{plus, minus, uminus, times, divide, ord}"
begin

fun plus_jsnum :: "jsnum \<Rightarrow> jsnum \<Rightarrow> jsnum" where
  "Fin a + Fin b = Fin (a + b)"
| "NaN + _ = NaN"
| "_ + NaN = NaN"
| "PInf + NInf = NaN"
| "NInf + PInf = NaN"
| "PInf + _ = PInf"
| "_ + PInf = PInf"
| "NInf + _ = NInf"
| "_ + NInf = NInf"

fun uminus_jsnum :: "jsnum \<Rightarrow> jsnum" where
  "- Fin a = Fin (- a)"
| "- PInf = NInf"
| "- NInf = PInf"
| "- NaN = NaN"

definition minus_jsnum :: "jsnum \<Rightarrow> jsnum \<Rightarrow> jsnum" where
  "a - b = a + (- b)" for a b :: jsnum

fun times_jsnum :: "jsnum \<Rightarrow> jsnum \<Rightarrow> jsnum" where
  "Fin a * Fin b = Fin (a * b)"
| "NaN * _ = NaN"
| "_ * NaN = NaN"
| "PInf * Fin b = (if b = 0 then NaN else if 0 < b then PInf else NInf)"
| "NInf * Fin b = (if b = 0 then NaN else if 0 < b then NInf else PInf)"
| "Fin a * PInf = (if a = 0 then NaN else if 0 < a then PInf else NInf)"
| "Fin a * NInf = (if a = 0 then NaN else if 0 < a then NInf else PInf)"
| "PInf * PInf = PInf"
| "PInf * NInf = NInf"
| "NInf * PInf = NInf"
| "NInf * NInf = PInf"

fun divide_jsnum :: "jsnum \<Rightarrow> jsnum \<Rightarrow> jsnum" where
  "Fin a div Fin b =
     (if b = 0 then (if a = 0 then NaN else if 0 < a then PInf else NInf)
      else Fin (a / b))"
| "NaN div _ = NaN"
| "_ div NaN = NaN"
| "Fin a div PInf = Fin 0"
| "Fin a div NInf = Fin 0"
| "PInf div Fin b = (if 0 \<le> b then PInf else NInf)"
| "NInf div Fin b = (if 0 \<le> b then NInf else PInf)"
| "PInf div PInf = NaN"
| "PInf div NInf = NaN"
| "NInf div PInf = NaN"
| "NInf div NInf = NaN"

fun less_jsnum :: "jsnum \<Rightarrow> jsnum \<Rightarrow> bool" where
  "Fin a < Fin b \<longleftrightarrow> a < b"
| "NaN < _ \<longleftrightarrow> False"
| "_ < NaN \<longleftrightarrow> False"
| "NInf < Fin b \<longleftrightarrow> True"
| "NInf < PInf \<longleftrightarrow> True"
| "Fin a < PInf \<longleftrightarrow> True"
| "_ < NInf \<longleftrightarrow> False"
| "PInf < _ \<longleftrightarrow> False"

fun less_eq_jsnum :: "jsnum \<Rightarrow> jsnum \<Rightarrow> bool" where
  "Fin a \<le> Fin b \<longleftrightarrow> a \<le> b"
| "NaN \<le> _ \<longleftrightarrow> False"
| "_ \<le> NaN \<longleftrightarrow> False"
| "NInf \<le> _ \<longleftrightarrow> True"
| "_ \<le> PInf \<longleftrightarrow> True"
| "Fin a \<le> NInf \<longleftrightarrow> False"
| "PInf \<le> _ \<longleftrightarrow> False"

instance ..

end

instantiation jsnum :: inverse
begin

definition inverse_jsnum :: "jsnum \<Rightarrow> jsnum" where
  "inverse a = Fin 1 div a" for a :: jsnum

instance ..

end

text \<open>\<^verbatim>\<open>Math.min\<close> and \<^verbatim>\<open>Math.max\<close> return \<^verbatim>\<open>NaN\<close> when an argument is \<^verbatim>\<open>NaN\<close>.\<close>

fun Math_min :: "jsnum \<Rightarrow> jsnum \<Rightarrow> jsnum" where
  "Math_min NaN _ = NaN"
| "Math_min _ NaN = NaN"
| "Math_min a b = (if a < b then a else b)"

fun Math_max :: "jsnum \<Rightarrow> jsnum \<Rightarrow> jsnum" where
  "Math_max NaN _ = NaN"
| "Math_max _ NaN = NaN"
| "Math_max a b = (if a < b then b else a)"

text \<open>
  \<^verbatim>\<open>Math.pow\<close> is only called with a count of years or of monthly payments as its
  exponent, a natural number here. \<^verbatim>\<open>Math.pow(x, 0)\<close> is 1 for every \<open>x\<close>.
\<close>

fun Math_pow :: "jsnum \<Rightarrow> nat \<Rightarrow> jsnum" where
  "Math_pow x 0 = Fin 1"
| "Math_pow (Fin a) n = Fin (a ^ n)"
| "Math_pow NaN n = NaN"
| "Math_pow PInf n = PInf"
| "Math_pow NInf n = (if even n then PInf else NInf)"

text \<open>Reading an array element that does not exist gives \<^verbatim>\<open>undefined\<close>; reading a
  property of \<^verbatim>\<open>undefined\<close> throws a \<^verbatim>\<open>TypeError\<close>.\<close>

datatype error = TypeError

definition element :: "'a list \<Rightarrow> nat \<Rightarrow> error + 'a" where
  "element xs i = (if i < length xs then Inr (xs ! i) else Inl TypeError)"

section \<open>Tax module\<close>

record bracket =
  bracket_max :: jsnum
  bracket_rate :: jsnum

definition FEDERAL_TAX_BRACKETS_SINGLE :: "bracket list" where
  "FEDERAL_TAX_BRACKETS_SINGLE =
    [\<lparr>bracket_max = Fin 11600, bracket_rate = Fin (10 / 100)\<rparr>,
     \<lparr>bracket_max = Fin 47150, bracket_rate = Fin (12 / 100)\<rparr>,
     \<lparr>bracket_max = Fin 100525, bracket_rate = Fin (22 / 100)\<rparr>,
     \<lparr>bracket_max = Fin 191950, bracket_rate = Fin (24 / 100)\<rparr>,
     \<lparr>bracket_max = Fin 243725, bracket_rate = Fin (32 / 100)\<rparr>,
     \<lparr>bracket_max = Fin 609350, bracket_rate = Fin (35 / 100)\<rparr>,
     \<lparr>bracket_max = PInf, bracket_rate = Fin (37 / 100)\<rparr>]"

definition FEDERAL_TAX_BRACKETS_JOINT :: "bracket list" where
  "FEDERAL_TAX_BRACKETS_JOINT =
    [\<lparr>bracket_max = Fin 23200, bracket_rate = Fin (10 / 100)\<rparr>,
     \<lparr>bracket_max = Fin 94300, bracket_rate = Fin (12 / 100)\<rparr>,
     \<lparr>bracket_max = Fin 201050, bracket_rate = Fin (22 / 100)\<rparr>,
     \<lparr>bracket_max = Fin 383900, bracket_rate = Fin (24 / 100)\<rparr>,
     \<lparr>bracket_max = Fin 487450, bracket_rate = Fin (32 / 100)\<rparr>,
     \<lparr>bracket_max = Fin 731200, bracket_rate = Fin (35 / 100)\<rparr>,
     \<lparr>bracket_max = PInf, bracket_rate = Fin (37 / 100)\<rparr>]"

definition STANDARD_DEDUCTION_single :: jsnum where
  "STANDARD_DEDUCTION_single = Fin 14600"

definition STANDARD_DEDUCTION_joint :: jsnum where
  "STANDARD_DEDUCTION_joint = Fin 29200"

record TaxConfig =
  filingStatus :: string
  stateIncomeTaxRate :: jsnum
  itemizeDeductions :: bool
  mortgageInterestDeduction :: jsnum
  propertyTaxDeduction :: jsnum
  otherDeductions :: jsnum

text \<open>The body of the \<^verbatim>\<open>for (const bracket of brackets)\<close> loop of
  \<^verbatim>\<open>calculateFederalTax\<close>, with its two \<^verbatim>\<open>break\<close>s; \<open>tax\<close> and \<open>previousMax\<close> are the
  loop's variables.\<close>

fun federal_brackets_loop :: "jsnum \<Rightarrow> bracket list \<Rightarrow> jsnum \<Rightarrow> jsnum \<Rightarrow> jsnum" where
  "federal_brackets_loop taxableIncome [] tax previousMax = tax"
| "federal_brackets_loop taxableIncome (b # brackets) tax previousMax =
     (if taxableIncome \<le> previousMax then tax
      else
        let incomeInBracket = Math_min taxableIncome (bracket_max b) - previousMax;
            tax' = tax + incomeInBracket * bracket_rate b
        in if taxableIncome \<le> bracket_max b then tax'
           else federal_brackets_loop taxableIncome brackets tax' (bracket_max b))"

definition federal_brackets :: "TaxConfig \<Rightarrow> bracket list" where
  "federal_brackets config =
     (if filingStatus config = ''joint'' then FEDERAL_TAX_BRACKETS_JOINT
      else FEDERAL_TAX_BRACKETS_SINGLE)"

definition calculateFederalTax :: "TaxConfig \<Rightarrow> jsnum \<Rightarrow> jsnum" where
  "calculateFederalTax config taxableIncome =
     (if taxableIncome \<le> Fin 0 then Fin 0
      else federal_brackets_loop taxableIncome (federal_brackets config) (Fin 0) (Fin 0))"

text \<open>\<^verbatim>\<open>calculateDeductions(mortgageInterest = 0, propertyTax = 0)\<close>: an omitted argument
  is \<open>Fin 0\<close>.\<close>

definition calculateDeductions :: "TaxConfig \<Rightarrow> jsnum \<Rightarrow> jsnum \<Rightarrow> jsnum" where
  "calculateDeductions config mortgageInterest propertyTax =
     (let standardDeduction =
            (if filingStatus config = ''joint'' then STANDARD_DEDUCTION_joint
             else STANDARD_DEDUCTION_single)
      in if \<not> itemizeDeductions config then standardDeduction
         else
           let itemizedTotal =
                 mortgageInterest + Math_min propertyTax (Fin 10000) + otherDeductions config
           in Math_max standardDeduction itemizedTotal)"

text \<open>The marginal progressive schedule in the specification's words: each bracket taxes
  only the income that falls within its band, from the previous bracket's bound \<open>lo\<close> to
  its own.\<close>

fun marginal_schedule :: "jsnum \<Rightarrow> jsnum \<Rightarrow> bracket list \<Rightarrow> jsnum" where
  "marginal_schedule income lo [] = Fin 0"
| "marginal_schedule income lo (b # brackets) =
     Math_max (Fin 0) (Math_min income (bracket_max b) - lo) * bracket_rate b
       + marginal_schedule income (bracket_max b) brackets"

text \<open>The tax of the first \<open>k\<close> brackets taken in full: the cumulative tax of all brackets
  below the \<open>k\<close>-th published boundary.\<close>

fun cumulative_tax :: "jsnum \<Rightarrow> bracket list \<Rightarrow> nat \<Rightarrow> jsnum" where
  "cumulative_tax lo brackets 0 = Fin 0"
| "cumulative_tax lo [] (Suc k) = Fin 0"
| "cumulative_tax lo (b # brackets) (Suc k) =
     (bracket_max b - lo) * bracket_rate b + cumulative_tax (bracket_max b) brackets k"

section \<open>Loops and exceptions\<close>

text \<open>A computation that may throw returns \<open>Inl\<close> the exception; \<open>and_then\<close> runs
  the rest of the statement on the value when there is one.\<close>

definition and_then :: "error + 'a \<Rightarrow> ('a \<Rightarrow> error + 'b) \<Rightarrow> error + 'b" where
  "and_then r f = (case r of Inl e \<Rightarrow> Inl e | Inr x \<Rightarrow> f x)"

text \<open>\<^verbatim>\<open>for (let i = 0; i < n; i++) body\<close> on the state \<open>s\<close>: the iterations
  \<open>0, \<dots>, n - 1\<close> in order, stopping at the first exception.\<close>

fun for_loop :: "(nat \<Rightarrow> 's \<Rightarrow> error + 's) \<Rightarrow> nat \<Rightarrow> 's \<Rightarrow> error + 's" where
  "for_loop body 0 s = Inr s"
| "for_loop body (Suc n) s = and_then (for_loop body n s) (body n)"

section \<open>General information\<close>

text \<open>Ages are whole numbers of years. \<open>inflation\<close> is the annual rate as a decimal
  (0.03 for 3 percent), as the class documents it and as \<^verbatim>\<open>readForm\<close> stores it.\<close>

record GeneralInformation =
  startAge :: int
  retirementAge :: int
  lifeExpectancy :: int
  inflation :: jsnum
  socialSecurity :: jsnum
  otherRetirementIncome :: jsnum
  monthlySpending :: jsnum
  retirementMonthlySpending :: jsnum

text \<open>\<^verbatim>\<open>const years = lifeExpectancy - startAge\<close>, as the number of iterations of
  \<^verbatim>\<open>for (let i = 0; i < years; i++)\<close>: none when \<open>years\<close> is not positive.\<close>

definition years :: "GeneralInformation \<Rightarrow> nat" where
  "years gi = nat (lifeExpectancy gi - startAge gi)"

section \<open>Housing\<close>

record HousingYear =
  age :: int
  "value" :: jsnum
  yearlyCosts :: jsnum
  totalCosts :: jsnum

record GenericHousing =
  generalInformation :: GeneralInformation
  monthlyInsurance :: jsnum
  monthlyHOA :: jsnum
  housingData :: "HousingYear list"

record House = GenericHousing +
  mortgage :: jsnum
  downPayment :: jsnum
  mortgageRate :: jsnum
  mortgageTermYears :: nat
  propertyTaxAssessment :: jsnum
  homeAppreciationRate :: jsnum
  oneTimeImprovements :: jsnum
  annualMaintenanceCost :: jsnum

text \<open>The constructor: \<^verbatim>\<open>housingData\<close> starts empty. The term is a number of years
  (\<^verbatim>\<open>calc\<close> passes 15 and 30).\<close>

definition House_new ::
  "GeneralInformation \<Rightarrow> jsnum \<Rightarrow> jsnum \<Rightarrow> jsnum \<Rightarrow> jsnum \<Rightarrow> jsnum \<Rightarrow> nat \<Rightarrow> jsnum \<Rightarrow> jsnum
     \<Rightarrow> jsnum \<Rightarrow> jsnum \<Rightarrow> House" where
  "House_new gi insurance hoa loanAmount down rate termYears propertyTax appreciation
       improvements maintenance =
     \<lparr>generalInformation = gi, monthlyInsurance = insurance, monthlyHOA = hoa,
      housingData = [],
      mortgage = loanAmount, downPayment = down, mortgageRate = rate,
      mortgageTermYears = termYears, propertyTaxAssessment = propertyTax,
      homeAppreciationRate = appreciation, oneTimeImprovements = improvements,
      annualMaintenanceCost = maintenance\<rparr>"

text \<open>The variables of the amortization: the two yearly sums (locals of one year, set to
  zero when the year declares them), the remaining principal, and \<open>principalPortions\<close>,
  which is not a variable of the program: it records the values that
  \<^verbatim>\<open>monthlyPrincipal\<close> takes, in order, so that they can be talked about.\<close>

record amortization =
  yearlyInterestPaid :: jsnum
  yearlyPrincipalPaid :: jsnum
  remainingPrincipal :: jsnum
  principalPortions :: "jsnum list"

text \<open>One iteration of \<^verbatim>\<open>for (let month = 0; month < 12; month++)\<close>.\<close>

definition House_month :: "jsnum \<Rightarrow> jsnum \<Rightarrow> amortization \<Rightarrow> amortization" where
  "House_month monthlyMortgagePayment monthlyRate a =
     (let monthlyInterest = remainingPrincipal a * monthlyRate;
          monthlyPrincipal = monthlyMortgagePayment - monthlyInterest;
          remaining = remainingPrincipal a - monthlyPrincipal
      in \<lparr>yearlyInterestPaid = yearlyInterestPaid a + monthlyInterest,
          yearlyPrincipalPaid = yearlyPrincipalPaid a + monthlyPrincipal,
          remainingPrincipal = (if remaining < Fin 0 then Fin 0 else remaining),
          principalPortions = principalPortions a @ [monthlyPrincipal]\<rparr>)"

definition House_monthlyRate :: "House \<Rightarrow> jsnum" where
  "House_monthlyRate this = mortgageRate this / Fin 12"

definition House_monthlyMortgagePayment :: "House \<Rightarrow> jsnum" where
  "House_monthlyMortgagePayment this =
     (let monthlyRate = House_monthlyRate this;
          totalPayments = mortgageTermYears this * 12
      in if Fin 0 < mortgage this
         then mortgage this * (monthlyRate * Math_pow (Fin 1 + monthlyRate) totalPayments) /
                (Math_pow (Fin 1 + monthlyRate) totalPayments - Fin 1)
         else Fin 0)"

text \<open>The state of the year loop of \<^verbatim>\<open>House.calculateData\<close>: the object and the local
  variables that live across iterations.\<close>

record House_state =
  house :: House
  currentValue :: jsnum
  loan :: amortization

definition House_year :: "jsnum \<Rightarrow> jsnum \<Rightarrow> nat \<Rightarrow> House_state \<Rightarrow> error + House_state" where
  "House_year monthlyRate monthlyMortgagePayment i s =
     (let this = house s;
          gi = GenericHousing.generalInformation this;
          yearlyCosts0 = monthlyInsurance this * Fin 12 + monthlyHOA this * Fin 12
                           + propertyTaxAssessment this;
          amortizing = (i < mortgageTermYears this \<and> Fin 0 < remainingPrincipal (loan s));
          loan' = (if amortizing
                   then (House_month monthlyMortgagePayment monthlyRate ^^ 12)
                          ((loan s)\<lparr>yearlyInterestPaid := Fin 0, yearlyPrincipalPaid := Fin 0\<rparr>)
                   else (loan s)\<lparr>yearlyPrincipalPaid := Fin 0\<rparr>);
          yearlyCosts1 = (if amortizing then yearlyCosts0 + monthlyMortgagePayment * Fin 12
                          else yearlyCosts0);
          yearlyCosts2 = (if i = 0 then yearlyCosts1 + oneTimeImprovements this
                          else yearlyCosts1 + annualMaintenanceCost this);
          currentValue' = currentValue s * (Fin 1 + homeAppreciationRate this)
      in and_then
           (if i = 0 then Inr yearlyCosts2
            else and_then (element (housingData this) (i - 1))
                   (\<lambda>previous. Inr (HousingYear.totalCosts previous + yearlyCosts2)))
           (\<lambda>total.
              Inr \<lparr>house = this
                     \<lparr>housingData := housingData this @
                        [\<lparr>HousingYear.age = startAge gi + int i, value = currentValue',
                          yearlyCosts = yearlyCosts2, totalCosts = total\<rparr>],
                      annualMaintenanceCost :=
                        annualMaintenanceCost this * (Fin 1 + inflation gi),
                      propertyTaxAssessment :=
                        propertyTaxAssessment this * (Fin 1 + inflation gi),
                      monthlyInsurance := monthlyInsurance this * (Fin 1 + inflation gi),
                      monthlyHOA := monthlyHOA this * (Fin 1 + inflation gi)\<rparr>,
                   currentValue = currentValue', loan = loan'\<rparr>))"

text \<open>The whole of \<^verbatim>\<open>House.calculateData\<close>, returning the final state of the loop.\<close>

definition House_run :: "House \<Rightarrow> error + House_state" where
  "House_run this =
     for_loop (House_year (House_monthlyRate this) (House_monthlyMortgagePayment this))
       (years (GenericHousing.generalInformation this))
       \<lparr>house = this, currentValue = downPayment this + mortgage this,
        loan = \<lparr>yearlyInterestPaid = Fin 0, yearlyPrincipalPaid = Fin 0,
                remainingPrincipal = mortgage this, principalPortions = []\<rparr>\<rparr>"

definition House_calculateData :: "House \<Rightarrow> error + House" where
  "House_calculateData this = and_then (House_run this) (\<lambda>s. Inr (house s))"

record Apartment = GenericHousing +
  monthlyRent :: jsnum
  annualRentIncrease :: jsnum

definition Apartment_new ::
  "GeneralInformation \<Rightarrow> jsnum \<Rightarrow> jsnum \<Rightarrow> jsnum \<Rightarrow> jsnum \<Rightarrow> Apartment" where
  "Apartment_new gi insurance hoa rent increase =
     \<lparr>generalInformation = gi, monthlyInsurance = insurance, monthlyHOA = hoa,
      housingData = [], monthlyRent = rent, annualRentIncrease = increase\<rparr>"

record Apartment_state =
  apartment :: Apartment
  currentRent :: jsnum

definition Apartment_year :: "nat \<Rightarrow> Apartment_state \<Rightarrow> error + Apartment_state" where
  "Apartment_year i s =
     (let this = apartment s;
          gi = GenericHousing.generalInformation this;
          yearlyCosts' = currentRent s * Fin 12 + monthlyInsurance this * Fin 12
                           + monthlyHOA this * Fin 12
      in and_then
           (if i = 0 then Inr yearlyCosts'
            else and_then (element (housingData this) (i - 1))
                   (\<lambda>previous. Inr (HousingYear.totalCosts previous + yearlyCosts')))
           (\<lambda>total.
              Inr \<lparr>apartment = this
                     \<lparr>housingData := housingData this @
                        [\<lparr>HousingYear.age = startAge gi + int i, value = Fin 0,
                          yearlyCosts = yearlyCosts', totalCosts = total\<rparr>],
                      monthlyInsurance := monthlyInsurance this * (Fin 1 + inflation gi),
                      monthlyHOA := monthlyHOA this * (Fin 1 + inflation gi)\<rparr>,
                   currentRent = currentRent s * (Fin 1 + annualRentIncrease this)\<rparr>))"

definition Apartment_calculateData :: "Apartment \<Rightarrow> error + Apartment" where
  "Apartment_calculateData this =
     and_then
       (for_loop Apartment_year (years (GenericHousing.generalInformation this))
          \<lparr>apartment = this, currentRent = monthlyRent this\<rparr>)
       (\<lambda>s. Inr (apartment s))"

section \<open>Healthcare\<close>

record HealthcareConfig =
  preMedicareMonthlyPremium :: jsnum
  preMedicareAnnualDeductible :: jsnum
  preMedicareAnnualOutOfPocket :: jsnum
  medicarePartBPremium :: jsnum
  medicarePartDPremium :: jsnum
  medigapPremium :: jsnum
  medicareAnnualOutOfPocket :: jsnum
  includeLongTermCare :: bool
  longTermCarePremium :: jsnum
  longTermCareStartAge :: int

text \<open>The configuration that the constructor's default arguments give.\<close>

definition HealthcareConfig_default :: HealthcareConfig where
  "HealthcareConfig_default =
     \<lparr>preMedicareMonthlyPremium = Fin 800, preMedicareAnnualDeductible = Fin 5000,
      preMedicareAnnualOutOfPocket = Fin 3000, medicarePartBPremium = Fin (17470 / 100),
      medicarePartDPremium = Fin 55, medigapPremium = Fin 200,
      medicareAnnualOutOfPocket = Fin 2000, includeLongTermCare = False,
      longTermCarePremium = Fin 250, longTermCareStartAge = 60\<rparr>"

record HealthcareYear =
  age :: int
  annualCost :: jsnum
  monthlyPremiums :: jsnum
  outOfPocket :: jsnum

record HealthcareCosts =
  generalInformation :: GeneralInformation
  config :: HealthcareConfig
  healthcareData :: "HealthcareYear list"
  medicareEligibleAge :: int

definition HealthcareCosts_new :: "GeneralInformation \<Rightarrow> HealthcareConfig \<Rightarrow> HealthcareCosts" where
  "HealthcareCosts_new gi cfg =
     \<lparr>generalInformation = gi, config = cfg, healthcareData = [], medicareEligibleAge = 65\<rparr>"

definition HealthcareCosts_year :: "nat \<Rightarrow> HealthcareCosts \<Rightarrow> error + HealthcareCosts" where
  "HealthcareCosts_year i this =
     (let gi = HealthcareCosts.generalInformation this;
          cfg = config this;
          inflationRate = inflation gi / Fin 100;
          age' = startAge gi + int i;
          yearsSinceStart = i;
          inflationMultiplier = Math_pow (Fin 1 + inflationRate) yearsSinceStart;
          monthlyPremiums0 =
            (if age' < medicareEligibleAge this
             then preMedicareMonthlyPremium cfg * inflationMultiplier
             else (medicarePartBPremium cfg + medicarePartDPremium cfg + medigapPremium cfg)
                    * inflationMultiplier);
          outOfPocket' =
            (if age' < medicareEligibleAge this
             then (preMedicareAnnualDeductible cfg + preMedicareAnnualOutOfPocket cfg)
                    * inflationMultiplier
             else medicareAnnualOutOfPocket cfg * inflationMultiplier);
          monthlyPremiums1 =
            (if includeLongTermCare cfg \<and> longTermCareStartAge cfg \<le> age'
             then monthlyPremiums0 + longTermCarePremium cfg * inflationMultiplier
             else monthlyPremiums0);
          annualCost' = monthlyPremiums1 * Fin 12 + outOfPocket'
      in Inr (this\<lparr>healthcareData := healthcareData this @
                [\<lparr>HealthcareYear.age = age', annualCost = annualCost',
                  monthlyPremiums = monthlyPremiums1, outOfPocket = outOfPocket'\<rparr>]\<rparr>))"

definition HealthcareCosts_calculateData :: "HealthcareCosts \<Rightarrow> error + HealthcareCosts" where
  "HealthcareCosts_calculateData this =
     for_loop HealthcareCosts_year (years (HealthcareCosts.generalInformation this)) this"

section \<open>Living expenses and investments\<close>

record ExpensesYear =
  age :: int
  yearlySpending :: jsnum
  totalCosts :: jsnum

record InvestmentYear =
  age :: int
  "value" :: "jsnum list"

record GenericInvestment =
  generalInformation :: GeneralInformation
  amount :: jsnum
  annualRate :: jsnum
  monthlyContribution :: jsnum
  investmentData :: "InvestmentYear list"

record TaxableInvestment = GenericInvestment +
  taxRate :: jsnum

type_synonym NonTaxableInvestment = GenericInvestment

definition TaxableInvestment_new ::
  "GeneralInformation \<Rightarrow> jsnum \<Rightarrow> jsnum \<Rightarrow> jsnum \<Rightarrow> jsnum \<Rightarrow> TaxableInvestment" where
  "TaxableInvestment_new gi amount0 rate contribution tax =
     \<lparr>generalInformation = gi, amount = amount0, annualRate = rate,
      monthlyContribution = contribution, investmentData = [], taxRate = tax\<rparr>"

definition NonTaxableInvestment_new ::
  "GeneralInformation \<Rightarrow> jsnum \<Rightarrow> jsnum \<Rightarrow> jsnum \<Rightarrow> NonTaxableInvestment" where
  "NonTaxableInvestment_new gi amount0 rate contribution =
     \<lparr>generalInformation = gi, amount = amount0, annualRate = rate,
      monthlyContribution = contribution, investmentData = []\<rparr>"

text \<open>An element of an array of numbers that is only ever an operand of \<open>+\<close>: outside
  the array it is \<^verbatim>\<open>undefined\<close>, and the sum is \<^verbatim>\<open>NaN\<close>.\<close>

definition number_at :: "jsnum list \<Rightarrow> nat \<Rightarrow> jsnum" where
  "number_at xs j = (if j < length xs then xs ! j else NaN)"

text \<open>\<^verbatim>\<open>(i == 0 ? this.amount : this.investmentData[i - 1].value[j])\<close>\<close>

definition previousValue :: "'a GenericInvestment_scheme \<Rightarrow> nat \<Rightarrow> nat \<Rightarrow> error + jsnum" where
  "previousValue this i j =
     (if i = 0 then Inr (amount this)
      else and_then (element (investmentData this) (i - 1))
             (\<lambda>previous. Inr (number_at (InvestmentYear.value previous) j)))"

text \<open>\<^verbatim>\<open>housingCosts[j].housingData[i].yearlyCosts\<close>, where each housing object is given
  by its \<^verbatim>\<open>housingData\<close> array, and \<^verbatim>\<open>livingExpenses.expensesData[i].yearlySpending\<close>.\<close>

definition housingCost :: "HousingYear list list \<Rightarrow> nat \<Rightarrow> nat \<Rightarrow> error + jsnum" where
  "housingCost housingCosts j i =
     and_then (element housingCosts j)
       (\<lambda>housingData'. and_then (element housingData' i) (\<lambda>y. Inr (yearlyCosts y)))"

definition livingCost :: "ExpensesYear list \<Rightarrow> nat \<Rightarrow> error + jsnum" where
  "livingCost expensesData i = and_then (element expensesData i) (\<lambda>y. Inr (yearlySpending y))"

text \<open>The body of the loop over \<open>j\<close> in \<^verbatim>\<open>TaxableInvestment.calculateData\<close>: the value
  pushed for scenario \<open>j\<close> in year \<open>i\<close>.\<close>

definition Taxable_currentValue ::
  "TaxableInvestment \<Rightarrow> HousingYear list list \<Rightarrow> ExpensesYear list \<Rightarrow> nat \<Rightarrow> nat
     \<Rightarrow> error + jsnum" where
  "Taxable_currentValue this housingCosts expensesData i j =
     (let gi = GenericInvestment.generalInformation this
      in if int i < retirementAge gi - startAge gi
         then and_then (previousValue this i j)
                (\<lambda>previous.
                   Inr ((previous + monthlyContribution this * Fin 12) * (Fin 1 + annualRate this)))
         else and_then (housingCost housingCosts j i) (\<lambda>housing.
              and_then (livingCost expensesData i) (\<lambda>living.
                let uncoveredLivingCosts =
                      housing + living - socialSecurity gi * Fin 12
                        - otherRetirementIncome gi * Fin 12;
                    withdrawals =
                      (if Fin 0 < uncoveredLivingCosts
                       then - uncoveredLivingCosts * (Fin 1 + taxRate this) else Fin 0)
                in and_then (previousValue this i j)
                     (\<lambda>previous. Inr ((previous + withdrawals) * (Fin 1 + annualRate this))))))"

text \<open>The same for \<^verbatim>\<open>NonTaxableInvestment.calculateData\<close>, with the year's healthcare
  cost.\<close>

definition NonTaxable_currentValue ::
  "NonTaxableInvestment \<Rightarrow> HousingYear list list \<Rightarrow> ExpensesYear list \<Rightarrow> jsnum \<Rightarrow> nat \<Rightarrow> nat
     \<Rightarrow> error + jsnum" where
  "NonTaxable_currentValue this housingCosts expensesData healthcareCost i j =
     (let gi = GenericInvestment.generalInformation this
      in if int i < retirementAge gi - startAge gi
         then and_then (previousValue this i j)
                (\<lambda>previous.
                   Inr ((previous + monthlyContribution this * Fin 12) * (Fin 1 + annualRate this)))
         else and_then (housingCost housingCosts j i) (\<lambda>housing.
              and_then (livingCost expensesData i) (\<lambda>living.
                let uncoveredLivingCosts =
                      housing + living + healthcareCost - socialSecurity gi * Fin 12
                        - otherRetirementIncome gi * Fin 12;
                    withdrawals =
                      (if Fin 0 < uncoveredLivingCosts then - uncoveredLivingCosts else Fin 0)
                in and_then (previousValue this i j)
                     (\<lambda>previous. Inr ((previous + withdrawals) * (Fin 1 + annualRate this))))))"

text \<open>The loop over the scenarios pushes one value each onto \<^verbatim>\<open>values\<close>.\<close>

definition push_value :: "(nat \<Rightarrow> error + jsnum) \<Rightarrow> nat \<Rightarrow> jsnum list \<Rightarrow> error + jsnum list" where
  "push_value currentValue' j values = and_then (currentValue' j) (\<lambda>v. Inr (values @ [v]))"

definition Taxable_year ::
  "HousingYear list list \<Rightarrow> ExpensesYear list \<Rightarrow> nat \<Rightarrow> TaxableInvestment
     \<Rightarrow> error + TaxableInvestment" where
  "Taxable_year housingCosts expensesData i this =
     and_then
       (for_loop (push_value (Taxable_currentValue this housingCosts expensesData i))
          (length housingCosts) [])
       (\<lambda>values.
          Inr (this\<lparr>investmentData := investmentData this @
                 [\<lparr>InvestmentYear.age =
                     startAge (GenericInvestment.generalInformation this) + int i,
                   value = values\<rparr>]\<rparr>))"

definition TaxableInvestment_calculateData ::
  "TaxableInvestment \<Rightarrow> HousingYear list list \<Rightarrow> ExpensesYear list
     \<Rightarrow> error + TaxableInvestment" where
  "TaxableInvestment_calculateData this housingCosts expensesData =
     for_loop (Taxable_year housingCosts expensesData)
       (years (GenericInvestment.generalInformation this)) this"

text \<open>\<^verbatim>\<open>healthcare ? healthcare.healthcareData[i].annualCost : 0\<close>, the optional
  healthcare object given by its \<^verbatim>\<open>healthcareData\<close> array.\<close>

definition healthcareCostOf :: "HealthcareYear list option \<Rightarrow> nat \<Rightarrow> error + jsnum" where
  "healthcareCostOf healthcare i =
     (case healthcare of
        None \<Rightarrow> Inr (Fin 0)
      | Some healthcareData' \<Rightarrow>
          and_then (element healthcareData' i) (\<lambda>y. Inr (annualCost y)))"

definition NonTaxable_year ::
  "HousingYear list list \<Rightarrow> ExpensesYear list \<Rightarrow> HealthcareYear list option \<Rightarrow> nat
     \<Rightarrow> NonTaxableInvestment \<Rightarrow> error + NonTaxableInvestment" where
  "NonTaxable_year housingCosts expensesData healthcare i this =
     and_then (healthcareCostOf healthcare i) (\<lambda>healthcareCost.
     and_then
       (for_loop
          (push_value (NonTaxable_currentValue this housingCosts expensesData healthcareCost i))
          (length housingCosts) [])
       (\<lambda>values.
          Inr (this\<lparr>investmentData := investmentData this @
                 [\<lparr>InvestmentYear.age =
                     startAge (GenericInvestment.generalInformation this) + int i,
                   value = values\<rparr>]\<rparr>)))"

definition NonTaxableInvestment_calculateData ::
  "NonTaxableInvestment \<Rightarrow> HousingYear list list \<Rightarrow> ExpensesYear list
     \<Rightarrow> HealthcareYear list option \<Rightarrow> error + NonTaxableInvestment" where
  "NonTaxableInvestment_calculateData this housingCosts expensesData healthcare =
     for_loop (NonTaxable_year housingCosts expensesData healthcare)
       (years (GenericInvestment.generalInformation this)) this"

section \<open>Series and example inputs\<close>

text \<open>The series that a run leaves in the object, one field of each year's record.\<close>

definition housing_series ::
  "(HousingYear \<Rightarrow> 'b) \<Rightarrow> error + 'a GenericHousing_scheme \<Rightarrow> error + 'b list" where
  "housing_series field r = and_then r (\<lambda>this. Inr (map field (housingData this)))"

definition healthcare_series ::
  "(HealthcareYear \<Rightarrow> 'b) \<Rightarrow> error + HealthcareCosts \<Rightarrow> error + 'b list" where
  "healthcare_series field r = and_then r (\<lambda>this. Inr (map field (healthcareData this)))"

definition investment_series ::
  "error + 'a GenericInvestment_scheme \<Rightarrow> error + jsnum list list" where
  "investment_series r =
     and_then r (\<lambda>this. Inr (map InvestmentYear.value (investmentData this)))"

text \<open>The profile of the specification's end-to-end scenario, and a profile of three
  years (ages 62, 63 and 64: one year before retirement and two after it, all before
  Medicare) on which whole runs are evaluated.\<close>

definition scenario_profile :: GeneralInformation where
  "scenario_profile =
     \<lparr>startAge = 40, retirementAge = 65, lifeExpectancy = 90, inflation = Fin (3 / 100),
      socialSecurity = Fin 2000, otherRetirementIncome = Fin 0, monthlySpending = Fin 4000,
      retirementMonthlySpending = Fin 5000\<rparr>"

definition short_profile :: GeneralInformation where
  "short_profile =
     \<lparr>startAge = 62, retirementAge = 63, lifeExpectancy = 65, inflation = Fin (3 / 100),
      socialSecurity = Fin 2000, otherRetirementIncome = Fin 0, monthlySpending = Fin 4000,
      retirementMonthlySpending = Fin 5000\<rparr>"

text \<open>A house bought with a loan at a rate of zero, and a house of value zero.\<close>

definition zero_rate_house :: House where
  "zero_rate_house =
     House_new short_profile (Fin 100) (Fin 0) (Fin 300000) (Fin 60000) (Fin 0) 30
       (Fin 4000) (Fin (3 / 100)) (Fin 5000) (Fin 2000)"



definition rental :: Apartment where
  "rental = Apartment_new short_profile (Fin 20) (Fin 0) (Fin 1800) (Fin (3 / 100))"

text \<open>The amortization schedule in closed form, over the reals: the level payment of a
  loan \<open>P\<close> at the monthly rate \<open>r\<close> over \<open>n\<close> months, and the balance that remains after
  \<open>k\<close> of the \<open>n\<close> payments.\<close>

definition level_payment :: "real \<Rightarrow> real \<Rightarrow> nat \<Rightarrow> real" where
  "level_payment P r n = P * (r * (1 + r) ^ n) / ((1 + r) ^ n - 1)"

definition balance_after :: "real \<Rightarrow> real \<Rightarrow> nat \<Rightarrow> nat \<Rightarrow> real" where
  "balance_after P r n k = P * ((1 + r) ^ n - (1 + r) ^ k) / ((1 + r) ^ n - 1)"

text \<open>The housing records of two scenarios (a rental and a house paid in cash) and
  the living expenses over the three years of the short profile; and the same housing
  records with the last year's cost of the second scenario changed.\<close>

definition example_housing :: "HousingYear list list" where
  "example_housing =
     [[\<lparr>HousingYear.age = 62, value = Fin 0, yearlyCosts = Fin 21840, totalCosts = Fin 21840\<rparr>,
       \<lparr>HousingYear.age = 63, value = Fin 0, yearlyCosts = Fin 22495.2, totalCosts = Fin 44335.2\<rparr>,
       \<lparr>HousingYear.age = 64, value = Fin 0, yearlyCosts = Fin 23170.056,
        totalCosts = Fin 67505.256\<rparr>],
      [\<lparr>HousingYear.age = 62, value = Fin 412000, yearlyCosts = Fin 10200,
        totalCosts = Fin 10200\<rparr>,
       \<lparr>HousingYear.age = 63, value = Fin 424360, yearlyCosts = Fin 7416, totalCosts = Fin 17616\<rparr>,
       \<lparr>HousingYear.age = 64, value = Fin 437090.8, yearlyCosts = Fin 7638.48,
        totalCosts = Fin 25254.48\<rparr>]]"

definition example_housing_changed :: "HousingYear list list" where
  "example_housing_changed =
     [example_housing ! 0,
      [example_housing ! 1 ! 0, example_housing ! 1 ! 1,
       \<lparr>HousingYear.age = 64, value = Fin 437090.8, yearlyCosts = Fin 9000,
        totalCosts = Fin 26616\<rparr>]]"

definition example_expenses :: "ExpensesYear list" where
  "example_expenses =
     [\<lparr>ExpensesYear.age = 62, yearlySpending = Fin 48000, totalCosts = Fin 48000\<rparr>,
      \<lparr>ExpensesYear.age = 63, yearlySpending = Fin 61800, totalCosts = Fin 109800\<rparr>,
      \<lparr>ExpensesYear.age = 64, yearlySpending = Fin 63654, totalCosts = Fin 173454\<rparr>]"


text \<open>The healthcare records of the default configuration on the short profile.\<close>

definition example_healthcare :: "HealthcareYear list" where
  "example_healthcare =
     [\<lparr>HealthcareYear.age = 62, annualCost = Fin 17600, monthlyPremiums = Fin 800,
       outOfPocket = Fin 8000\<rparr>,
      \<lparr>HealthcareYear.age = 63, annualCost = Fin 17605.28, monthlyPremiums = Fin 800.24,
       outOfPocket = Fin 8002.4\<rparr>,
      \<lparr>HealthcareYear.age = 64, annualCost = Fin 17610.561584,
       monthlyPremiums = Fin 800.480072, outOfPocket = Fin 8004.80072\<rparr>]"

section \<open>Auxiliary facts\<close>

lemma and_then_Inr [simp]: "and_then (Inr x) f = f x"
  by (simp add: and_then_def)

lemma and_then_Inl [simp]: "and_then (Inl e) f = Inl e"
  by (simp add: and_then_def)

lemma and_then_eq_Inr: "and_then r f = Inr y \<longleftrightarrow> (\<exists>x. r = Inr x \<and> f x = Inr y)"
  by (cases r) simp_all

lemma Math_pow_Fin [simp]: "Math_pow (Fin a) n = Fin (a ^ n)"
  by (cases n) simp_all

lemma element_in_range [simp]: "i < length xs \<Longrightarrow> element xs i = Inr (xs ! i)"
  by (simp add: element_def)

text \<open>Two rules for the loop: with an invariant that every iteration re-establishes
  without throwing, the loop does not throw; and an invariant of the iterations that do
  not throw holds of the result.\<close>

lemma for_loop_total:
  assumes "P 0 s"
    and "\<And>i t. i < n \<Longrightarrow> P i t \<Longrightarrow> \<exists>t'. body i t = Inr t' \<and> P (Suc i) t'"
  shows "\<exists>t. for_loop body n s = Inr t \<and> P n t"
  using assms(2)
proof (induction n)
  case 0
  then show ?case using assms(1) by simp
next
  case (Suc n)
  then obtain t where t: "for_loop body n s = Inr t" "P n t"
    by (metis less_Suc_eq)
  from Suc.prems [of n t] t(2) obtain t' where "body n t = Inr t'" "P (Suc n) t'"
    by auto
  with t(1) show ?case by simp
qed

lemma for_loop_invariant:
  assumes "for_loop body n s = Inr t" and "P 0 s"
    and "\<And>i u u'. i < n \<Longrightarrow> P i u \<Longrightarrow> body i u = Inr u' \<Longrightarrow> P (Suc i) u'"
  shows "P n t"
  using assms(1,3)
proof (induction n arbitrary: t)
  case 0
  then show ?case using assms(2) by simp
next
  case (Suc n)
  from Suc.prems(1) obtain u where u: "for_loop body n s = Inr u" "body n u = Inr t"
    by (auto simp: and_then_eq_Inr)
  have "P n u"
    using Suc.IH [OF u(1)] Suc.prems(2) by (metis less_Suc_eq)
  then show ?case
    using Suc.prems(2) [of n u t] u(2) by simp
qed

section \<open>Tax\<close>

lemmas bracket_tables = FEDERAL_TAX_BRACKETS_SINGLE_def FEDERAL_TAX_BRACKETS_JOINT_def

lemma federal_loop_single:
  "0 < x \<Longrightarrow> federal_brackets_loop (Fin x) FEDERAL_TAX_BRACKETS_SINGLE (Fin 0) (Fin 0) =
     marginal_schedule (Fin x) (Fin 0) FEDERAL_TAX_BRACKETS_SINGLE"
  by (simp add: bracket_tables minus_jsnum_def Let_def)

lemma federal_loop_joint:
  "0 < x \<Longrightarrow> federal_brackets_loop (Fin x) FEDERAL_TAX_BRACKETS_JOINT (Fin 0) (Fin 0) =
     marginal_schedule (Fin x) (Fin 0) FEDERAL_TAX_BRACKETS_JOINT"
  by (simp add: bracket_tables minus_jsnum_def Let_def)

lemma marginal_schedule_nonpositive:
  "x \<le> 0 \<Longrightarrow> marginal_schedule (Fin x) (Fin 0) (federal_brackets cfg) = Fin 0"
  by (simp add: federal_brackets_def bracket_tables minus_jsnum_def)

lemma federal_tax_marginal:
  "calculateFederalTax cfg (Fin x) = marginal_schedule (Fin x) (Fin 0) (federal_brackets cfg)"
proof (cases "x \<le> 0")
  case True
  then show ?thesis
    by (simp add: calculateFederalTax_def marginal_schedule_nonpositive)
next
  case False
  then have "0 < x" by simp
  then show ?thesis
    by (simp add: calculateFederalTax_def federal_brackets_def federal_loop_single
        federal_loop_joint)
qed

lemma single_boundaries:
  "map (\<lambda>k. calculateFederalTax (cfg\<lparr>filingStatus := ''single''\<rparr>)
               (bracket_max (FEDERAL_TAX_BRACKETS_SINGLE ! k))) [0..<6] =
   map (\<lambda>k. cumulative_tax (Fin 0) FEDERAL_TAX_BRACKETS_SINGLE (Suc k)) [0..<6]"
  by (simp add: upt_rec calculateFederalTax_def federal_brackets_def bracket_tables
      minus_jsnum_def numeral_nat)

lemma single_cumulative:
  "map (\<lambda>k. cumulative_tax (Fin 0) FEDERAL_TAX_BRACKETS_SINGLE (Suc k)) [0..<6] =
     [Fin 1160, Fin 5426, Fin 17168.5, Fin 39110.5, Fin 55678.5, Fin 183647.25]"
  by (simp add: upt_rec bracket_tables minus_jsnum_def numeral_nat)

lemma single_first_boundary:
  "calculateFederalTax (cfg\<lparr>filingStatus := ''single''\<rparr>) (Fin 11600) = Fin 1160"
  by (simp add: calculateFederalTax_def federal_brackets_def bracket_tables minus_jsnum_def)

lemma joint_boundaries:
  "map (\<lambda>k. calculateFederalTax (cfg\<lparr>filingStatus := ''joint''\<rparr>)
               (bracket_max (FEDERAL_TAX_BRACKETS_JOINT ! k))) [0..<6] =
   map (\<lambda>k. cumulative_tax (Fin 0) FEDERAL_TAX_BRACKETS_JOINT (Suc k)) [0..<6]"
  by (simp add: upt_rec calculateFederalTax_def federal_brackets_def bracket_tables
      minus_jsnum_def numeral_nat)

lemma joint_cumulative:
  "map (\<lambda>k. cumulative_tax (Fin 0) FEDERAL_TAX_BRACKETS_JOINT (Suc k)) [0..<6] =
     [Fin 2320, Fin 10852, Fin 34337, Fin 78221, Fin 111357, Fin 196669.5]"
  by (simp add: upt_rec bracket_tables minus_jsnum_def numeral_nat)

lemma federal_tax_table:
  "calculateFederalTax cfg (Fin x) =
     marginal_schedule (Fin x) (Fin 0)
       (if filingStatus cfg = ''joint'' then FEDERAL_TAX_BRACKETS_JOINT
        else FEDERAL_TAX_BRACKETS_SINGLE)"
  using federal_tax_marginal [of cfg x] by (simp add: federal_brackets_def)

text \<open>
  C6. On every finite taxable income \<^verbatim>\<open>calculateFederalTax\<close> computes the marginal
  progressive schedule of the bracket table of the filing status, which is
  \<^verbatim>\<open>FEDERAL_TAX_BRACKETS_JOINT\<close> for \<^verbatim>\<open>'joint'\<close> and \<^verbatim>\<open>FEDERAL_TAX_BRACKETS_SINGLE\<close>
  for every other status: the loop with its early exits gives the sum, over all brackets
  of that table, of the rate times the income inside the band. For the Single table, the
  tax at each of the six published boundaries is the cumulative tax of the brackets up to
  that boundary, namely 1160, 5426, 17168.50, 39110.50, 55678.50 and 183647.25; in
  particular a taxable income of 11600 gives 1160. For the Joint table the six boundaries
  give 2320, 10852, 34337, 78221, 111357 and 196669.50.
\<close>

theorem federal_tax_marginal_schedule:
  "calculateFederalTax cfg (Fin x) =
     marginal_schedule (Fin x) (Fin 0)
       (if filingStatus cfg = ''joint'' then FEDERAL_TAX_BRACKETS_JOINT
        else FEDERAL_TAX_BRACKETS_SINGLE)
   \<and> map (\<lambda>k. calculateFederalTax (cfg\<lparr>filingStatus := ''single''\<rparr>)
               (bracket_max (FEDERAL_TAX_BRACKETS_SINGLE ! k))) [0..<6] =
     map (\<lambda>k. cumulative_tax (Fin 0) FEDERAL_TAX_BRACKETS_SINGLE (Suc k)) [0..<6]
   \<and> map (\<lambda>k. cumulative_tax (Fin 0) FEDERAL_TAX_BRACKETS_SINGLE (Suc k)) [0..<6] =
     [Fin 1160, Fin 5426, Fin 17168.5, Fin 39110.5, Fin 55678.5, Fin 183647.25]
   \<and> calculateFederalTax (cfg\<lparr>filingStatus := ''single''\<rparr>) (Fin 11600) = Fin 1160
   \<and> map (\<lambda>k. calculateFederalTax (cfg\<lparr>filingStatus := ''joint''\<rparr>)
               (bracket_max (FEDERAL_TAX_BRACKETS_JOINT ! k))) [0..<6] =
     map (\<lambda>k. cumulative_tax (Fin 0) FEDERAL_TAX_BRACKETS_JOINT (Suc k)) [0..<6]
   \<and> map (\<lambda>k. cumulative_tax (Fin 0) FEDERAL_TAX_BRACKETS_JOINT (Suc k)) [0..<6] =
     [Fin 2320, Fin 10852, Fin 34337, Fin 78221, Fin 111357, Fin 196669.5]"
  using federal_tax_table single_boundaries single_cumulative single_first_boundary
    joint_boundaries joint_cumulative
  by blast

text \<open>
  C7. \<^verbatim>\<open>calculateDeductions\<close> returns the standard deduction of the filing status
  (29200 for \<^verbatim>\<open>'joint'\<close>, 14600 otherwise) when not itemizing, and otherwise the greater
  of the standard deduction and mortgage interest + min(property tax, 10000) + other
  deductions. On finite amounts its result is therefore never below the standard
  deduction, whether itemizing or not.
\<close>

theorem deductions_floor:
  "calculateDeductions cfg mortgageInterest' propertyTax =
     (if itemizeDeductions cfg
      then Math_max (if filingStatus cfg = ''joint'' then Fin 29200 else Fin 14600)
             (mortgageInterest' + Math_min propertyTax (Fin 10000) + otherDeductions cfg)
      else (if filingStatus cfg = ''joint'' then Fin 29200 else Fin 14600))
   \<and> (if filingStatus cfg = ''joint'' then Fin 29200 else Fin 14600)
       \<le> calculateDeductions (cfg\<lparr>otherDeductions := Fin other\<rparr>) (Fin interest) (Fin tax)"
  by (simp add: calculateDeductions_def STANDARD_DEDUCTION_single_def
      STANDARD_DEDUCTION_joint_def Let_def)

section \<open>Houses and apartments\<close>

text \<open>What one year of the house loop does: it cannot throw once the object holds at
  least \<open>i\<close> records, which it does in iteration \<open>i\<close>.\<close>

lemma House_year_step:
  assumes "i \<le> length (housingData (house s))"
  shows "\<exists>s'. House_year r p i s = Inr s'
     \<and> (\<exists>y. housingData (house s') = housingData (house s) @ [y]
            \<and> HousingYear.value y = currentValue s * (Fin 1 + homeAppreciationRate (house s)))
     \<and> currentValue s' = currentValue s * (Fin 1 + homeAppreciationRate (house s))
     \<and> homeAppreciationRate (house s') = homeAppreciationRate (house s)
     \<and> GenericHousing.generalInformation (house s') = GenericHousing.generalInformation (house s)
     \<and> mortgageTermYears (house s') = mortgageTermYears (house s)
     \<and> loan s' =
         (if i < mortgageTermYears (house s) \<and> Fin 0 < remainingPrincipal (loan s)
          then (House_month p r ^^ 12)
                 ((loan s)\<lparr>yearlyInterestPaid := Fin 0, yearlyPrincipalPaid := Fin 0\<rparr>)
          else (loan s)\<lparr>yearlyPrincipalPaid := Fin 0\<rparr>)"
proof (cases "i = 0")
  case True
  then show ?thesis by (simp add: House_year_def Let_def)
next
  case False
  with assms have "i - 1 < length (housingData (house s))" by simp
  with False show ?thesis by (simp add: House_year_def Let_def)
qed




lemma House_run_equity:
  "\<exists>s. House_run (House_new gi ins hoa (Fin m) (Fin d) rate T ptax (Fin a) imp maint) = Inr s
     \<and> length (housingData (house s)) = years gi
     \<and> (\<forall>k<years gi. HousingYear.value (housingData (house s) ! k)
            = Fin ((m + d) * (1 + a) ^ (k + 1)))"
proof -
  define P where "P i s \<longleftrightarrow>
      length (housingData (house s)) = i
      \<and> currentValue s = Fin ((m + d) * (1 + a) ^ i)
      \<and> homeAppreciationRate (house s) = Fin a
      \<and> (\<forall>k<i. HousingYear.value (housingData (house s) ! k) = Fin ((m + d) * (1 + a) ^ (k + 1)))"
    for i and s :: House_state
  define this where
    "this = House_new gi ins hoa (Fin m) (Fin d) rate T ptax (Fin a) imp maint"
  define s0 where "s0 = \<lparr>house = this, currentValue = downPayment this + mortgage this,
        loan = \<lparr>yearlyInterestPaid = Fin 0, yearlyPrincipalPaid = Fin 0,
                remainingPrincipal = mortgage this, principalPortions = []\<rparr>\<rparr>"
  have init: "P 0 s0"
    by (simp add: P_def s0_def this_def House_new_def add.commute)
  have step: "\<exists>s'. House_year r p i s = Inr s' \<and> P (Suc i) s'" if "P i s" for i s r p
  proof -
    from that have len: "i \<le> length (housingData (house s))"
      by (simp add: P_def)
    from House_year_step [OF len, of r p] obtain s' y where s':
      "House_year r p i s = Inr s'"
      "housingData (house s') = housingData (house s) @ [y]"
      "HousingYear.value y = currentValue s * (Fin 1 + homeAppreciationRate (house s))"
      "currentValue s' = currentValue s * (Fin 1 + homeAppreciationRate (house s))"
      "homeAppreciationRate (house s') = homeAppreciationRate (house s)"
      by blast
    have "P (Suc i) s'"
      using that s'(2-5) by (auto simp: P_def nth_append less_Suc_eq mult.assoc mult.commute)
    with s'(1) show ?thesis by blast
  qed
  have "\<exists>s. for_loop (House_year (House_monthlyRate this)
      (House_monthlyMortgagePayment this)) (years gi) s0 = Inr s \<and> P (years gi) s"
    by (rule for_loop_total [where P = P]) (simp_all add: init step)
  then obtain s where "for_loop (House_year (House_monthlyRate this)
      (House_monthlyMortgagePayment this)) (years gi) s0 = Inr s" "P (years gi) s"
    by blast
  moreover have "GenericHousing.generalInformation this = gi"
    by (simp add: this_def House_new_def)
  ultimately show ?thesis
    unfolding House_run_def this_def [symmetric] s0_def [symmetric] by (auto simp: P_def)
qed

lemma House_equity_series:
  "housing_series HousingYear.value
     (House_calculateData (House_new gi ins hoa (Fin m) (Fin d) rate T ptax (Fin a) imp maint))
   = Inr (map (\<lambda>k. Fin ((m + d) * (1 + a) ^ (k + 1))) [0..<years gi])"
proof -
  from House_run_equity [of gi ins hoa m d rate T ptax a imp maint]
  obtain s where s:
    "House_run (House_new gi ins hoa (Fin m) (Fin d) rate T ptax (Fin a) imp maint) = Inr s"
    "length (housingData (house s)) = years gi"
    "\<forall>k<years gi. HousingYear.value (housingData (house s) ! k)
            = Fin ((m + d) * (1 + a) ^ (k + 1))"
    by blast
  have "map HousingYear.value (housingData (house s))
      = map (\<lambda>k. Fin ((m + d) * (1 + a) ^ (k + 1))) [0..<years gi]"
    using s(2,3) by (auto simp: list_eq_iff_nth_eq)
  then show ?thesis
    using s(1) by (simp add: housing_series_def House_calculateData_def)
qed

lemmas run_defs = House_calculateData_def House_run_def House_year_def House_new_def
  House_monthlyMortgagePayment_def House_monthlyRate_def House_month_def minus_jsnum_def
  years_def eval_nat_numeral Let_def housing_series_def Apartment_new_def
  Apartment_calculateData_def Apartment_year_def

text \<open>
  C10. The equity that \<^verbatim>\<open>House.calculateData\<close> records for year \<open>i\<close> of a freshly
  constructed house is (mortgage + downPayment) \<times> (1 + homeAppreciationRate)^(i+1): the
  first record already carries one year of appreciation. (Finite mortgage, down payment
  and appreciation rate; every other parameter is arbitrary.)
\<close>

theorem house_equity_closed_form:
  assumes "i < years gi"
  shows "\<exists>equity. housing_series HousingYear.value
            (House_calculateData
               (House_new gi ins hoa (Fin m) (Fin d) rate T ptax (Fin a) imp maint)) = Inr equity
     \<and> length equity = years gi
     \<and> equity ! i = Fin ((m + d) * (1 + a) ^ (i + 1))"
  using assms by (simp add: House_equity_series)

theorem house_equity_closed_form_witness:
  "1 < years scenario_profile
   \<and> (\<exists>equity. housing_series HousingYear.value
            (House_calculateData
               (House_new scenario_profile (Fin 100) (Fin 0) (Fin 320000) (Fin 80000)
                  (Fin (6 / 100)) 30 (Fin 4000) (Fin (3 / 100)) (Fin 5000) (Fin 2000)))
          = Inr equity
        \<and> length equity = 50
        \<and> equity ! 1 = Fin 424360)"
proof -
  have h: "1 < years scenario_profile"
    by (simp add: years_def scenario_profile_def)
  have y: "years scenario_profile = 50"
    by (simp add: years_def scenario_profile_def)
  show ?thesis
    using h house_equity_closed_form [OF h, of "Fin 100" "Fin 0" 320000 80000 "Fin (6 / 100)" 30
        "Fin 4000" "3 / 100" "Fin 5000" "Fin 2000"]
    by (simp add: y power2_eq_square)
qed




text \<open>The degenerate input that the payment formula guards: no principal, no payment.\<close>

lemma zero_principal_payment:
  "House_monthlyMortgagePayment
     (House_new gi ins hoa (Fin 0) d rate T ptax a imp maint) = Fin 0"
  by (simp add: House_monthlyMortgagePayment_def House_new_def)

text \<open>
  C2. A mortgage rate of zero on a positive principal: the payment formula divides zero
  by zero, the monthly payment is \<^verbatim>\<open>NaN\<close>, and so are the first year's cost and every
  cumulative cost of the run.
\<close>

theorem zero_rate_payment_is_NaN:
  "House_monthlyMortgagePayment zero_rate_house = NaN
   \<and> housing_series yearlyCosts (House_calculateData zero_rate_house)
       = Inr [NaN, Fin 7416, Fin 7638.48]
   \<and> housing_series HousingYear.totalCosts (House_calculateData zero_rate_house)
       = Inr [NaN, NaN, NaN]"
  by (simp add: zero_rate_house_def short_profile_def run_defs)



section \<open>Amortization\<close>

lemma balance_after_0: "1 < (1 + r) ^ n \<Longrightarrow> balance_after P r n 0 = P"
  by (simp add: balance_after_def)

lemma balance_after_end: "balance_after P r n n = 0"
  by (simp add: balance_after_def)

lemma balance_after_Suc:
  assumes "1 < (1 + r) ^ n"
  shows "balance_after P r n (Suc k)
    = balance_after P r n k - (level_payment P r n - balance_after P r n k * r)"
proof -
  define Q where "Q = (1 + r) ^ n"
  define x where "x = (1 + r) ^ k"
  have D: "Q - 1 \<noteq> 0" using assms by (simp add: Q_def)
  have "P * (Q - x) / (Q - 1) - (P * (r * Q) / (Q - 1) - P * (Q - x) / (Q - 1) * r)
      = (P * (Q - x) - (P * (r * Q) - P * (Q - x) * r)) / (Q - 1)"
    by (simp add: diff_divide_distrib)
  also have "P * (Q - x) - (P * (r * Q) - P * (Q - x) * r) = P * (Q - x * (1 + r))"
    by (simp add: algebra_simps)
  finally show ?thesis
    by (simp add: balance_after_def level_payment_def Q_def x_def mult.commute)
qed

lemma balance_after_positive:
  assumes "0 < P" and "0 < r" and "k < n"
  shows "0 < balance_after P r n k"
proof -
  have "(1 + r) ^ k < (1 + r) ^ n"
    using assms(2,3) by (simp add: power_strict_increasing)
  moreover have "1 \<le> (1 + r) ^ k"
    using assms(2) by (simp add: one_le_power)
  ultimately show ?thesis
    using assms(1) by (simp add: balance_after_def)
qed

lemma balance_after_nonnegative:
  assumes "0 < P" and "0 < r" and "k \<le> n" and "0 < n"
  shows "0 \<le> balance_after P r n k"
  using assms balance_after_positive [of P r k n] balance_after_end [of P r n]
  by (cases "k = n") (simp_all add: less_eq_real_def)

lemma growth_exceeds_one: "0 < r \<Longrightarrow> 0 < n \<Longrightarrow> 1 < (1 + r :: real) ^ n"
  by (simp add: one_less_power)

text \<open>One month, and then any number of months, on the schedule.\<close>

lemma House_month_on_schedule:
  assumes "0 < P" and "0 < r" and "k < n"
    and "remainingPrincipal a = Fin (balance_after P r n k)"
  shows "remainingPrincipal (House_month (Fin (level_payment P r n)) (Fin r) a)
           = Fin (balance_after P r n (Suc k))
     \<and> principalPortions (House_month (Fin (level_payment P r n)) (Fin r) a)
           = principalPortions a @ [Fin (balance_after P r n k - balance_after P r n (Suc k))]"
proof -
  have one: "1 < (1 + r) ^ n"
    using assms(2,3) by (simp add: growth_exceeds_one)
  have "0 \<le> balance_after P r n (Suc k)"
    using assms(1-3) by (simp add: balance_after_nonnegative)
  then show ?thesis
    using assms(4) balance_after_Suc [OF one, of P k]
    by (simp add: House_month_def Let_def minus_jsnum_def)
qed

lemma House_months_on_schedule:
  assumes "0 < P" and "0 < r" and "k + j \<le> n"
    and "remainingPrincipal a = Fin (balance_after P r n k)"
  shows "remainingPrincipal ((House_month (Fin (level_payment P r n)) (Fin r) ^^ j) a)
           = Fin (balance_after P r n (k + j))
     \<and> principalPortions ((House_month (Fin (level_payment P r n)) (Fin r) ^^ j) a)
           = principalPortions a
               @ map (\<lambda>i. Fin (balance_after P r n i - balance_after P r n (Suc i))) [k..<k + j]"
  using assms(3)
proof (induction j)
  case 0
  then show ?case using assms(4) by simp
next
  case (Suc j)
  then have IH: "remainingPrincipal ((House_month (Fin (level_payment P r n)) (Fin r) ^^ j) a)
           = Fin (balance_after P r n (k + j))"
    "principalPortions ((House_month (Fin (level_payment P r n)) (Fin r) ^^ j) a)
           = principalPortions a
               @ map (\<lambda>i. Fin (balance_after P r n i - balance_after P r n (Suc i))) [k..<k + j]"
    by simp_all
  from Suc.prems have "k + j < n" by simp
  from House_month_on_schedule [OF assms(1,2) this IH(1)] IH(2)
  show ?case by simp
qed

lemma foldl_plus_Fin:
  "foldl (+) (Fin x) (map (\<lambda>i. Fin (f i)) [0..<n]) = Fin (x + (\<Sum>i<n. f i))"
  by (induction n) (simp_all add: add.assoc)

lemma portions_telescope:
  "(\<Sum>i<n. balance_after P r m i - balance_after P r m (Suc i))
     = balance_after P r m 0 - balance_after P r m n"
  by (induction n) simp_all

lemma House_run_schedule:
  assumes "0 < P" and "0 < rate" and "0 < T"
  defines "r \<equiv> rate / 12"
  shows "\<exists>s. House_run (House_new gi ins hoa (Fin P) d (Fin rate) T ptax a imp maint) = Inr s
     \<and> remainingPrincipal (loan s) = Fin (balance_after P r (T * 12) (12 * min (years gi) T))
     \<and> principalPortions (loan s)
         = map (\<lambda>i. Fin (balance_after P r (T * 12) i - balance_after P r (T * 12) (Suc i)))
             [0..<12 * min (years gi) T]"
proof -
  define n where "n = T * 12"
  define this where "this = House_new gi ins hoa (Fin P) d (Fin rate) T ptax a imp maint"
  define Inv where "Inv i s \<longleftrightarrow>
      length (housingData (house s)) = i
      \<and> mortgageTermYears (house s) = T
      \<and> remainingPrincipal (loan s) = Fin (balance_after P r n (12 * min i T))
      \<and> principalPortions (loan s)
          = map (\<lambda>i. Fin (balance_after P r n i - balance_after P r n (Suc i))) [0..<12 * min i T]"
    for i and s :: House_state
  define s0 where "s0 = \<lparr>house = this, currentValue = downPayment this + mortgage this,
        loan = \<lparr>yearlyInterestPaid = Fin 0, yearlyPrincipalPaid = Fin 0,
                remainingPrincipal = mortgage this, principalPortions = []\<rparr>\<rparr>"
  have r: "0 < r" using assms(2) by (simp add: r_def)
  have n: "0 < n" using assms(3) by (simp add: n_def)
  have one: "1 < (1 + r) ^ n"
    using r n by (rule growth_exceeds_one)
  have rate: "House_monthlyRate this = Fin r"
    by (simp add: House_monthlyRate_def this_def House_new_def r_def)
  have pay: "House_monthlyMortgagePayment this = Fin (level_payment P r n)"
    using assms(1) one
    by (simp add: House_monthlyMortgagePayment_def rate Let_def level_payment_def minus_jsnum_def)
       (simp add: this_def House_new_def n_def)
  have init: "Inv 0 s0"
    using one by (simp add: Inv_def s0_def this_def House_new_def balance_after_0)
  have step: "\<exists>s'. House_year (Fin r) (Fin (level_payment P r n)) i s = Inr s' \<and> Inv (Suc i) s'"
    if "Inv i s" for i s
  proof -
    from that have len: "i \<le> length (housingData (house s))"
      by (simp add: Inv_def)
    from House_year_step [OF len, of "Fin r" "Fin (level_payment P r n)"] obtain s' y where s':
      "House_year (Fin r) (Fin (level_payment P r n)) i s = Inr s'"
      "housingData (house s') = housingData (house s) @ [y]"
      "mortgageTermYears (house s') = mortgageTermYears (house s)"
      "loan s' =
         (if i < mortgageTermYears (house s) \<and> Fin 0 < remainingPrincipal (loan s)
          then (House_month (Fin (level_payment P r n)) (Fin r) ^^ 12)
                 ((loan s)\<lparr>yearlyInterestPaid := Fin 0, yearlyPrincipalPaid := Fin 0\<rparr>)
          else (loan s)\<lparr>yearlyPrincipalPaid := Fin 0\<rparr>)"
      by blast
    have "Inv (Suc i) s'"
    proof (cases "i < T")
      case True
      then have k: "12 * i < n" and kj: "12 * i + 12 \<le> n"
        by (simp_all add: n_def)
      have pos: "0 < balance_after P r n (12 * i)"
        using assms(1) r k by (rule balance_after_positive)
      let ?a = "(loan s)\<lparr>yearlyInterestPaid := Fin 0, yearlyPrincipalPaid := Fin 0\<rparr>"
      have a: "remainingPrincipal ?a = Fin (balance_after P r n (12 * i))"
        using that True by (simp add: Inv_def)
      have loan': "loan s' = (House_month (Fin (level_payment P r n)) (Fin r) ^^ 12) ?a"
        using s'(4) that True pos by (simp add: Inv_def)
      have up: "[0..<12 + 12 * i] = [0..<12 * i] @ [12 * i..<12 + 12 * i]"
        using upt_add_eq_append [of 0 "12 * i" 12] by (simp add: add.commute)
      from House_months_on_schedule [OF assms(1) r kj a] that True s'(2,3)
      show ?thesis
        unfolding Inv_def loan' by (simp add: up add.commute del: upt_Suc)
    next
      case False
      then have "loan s' = (loan s)\<lparr>yearlyPrincipalPaid := Fin 0\<rparr>"
        using s'(4) that by (simp add: Inv_def)
      with False that s'(2,3) show ?thesis
        by (simp add: Inv_def min_def)
    qed
    with s'(1) show ?thesis by blast
  qed
  have "\<exists>s. for_loop (House_year (Fin r) (Fin (level_payment P r n))) (years gi) s0 = Inr s
      \<and> Inv (years gi) s"
    by (rule for_loop_total [where P = Inv]) (simp_all add: init step)
  moreover have "GenericHousing.generalInformation this = gi"
    by (simp add: this_def House_new_def)
  ultimately show ?thesis
    unfolding House_run_def this_def [symmetric] s0_def [symmetric] rate pay n_def [symmetric]
    by (auto simp: Inv_def)
qed

text \<open>
  C4. For a loan of 300000 at 6 percent over 30 years and a horizon of at least 30 years,
  the month loop of \<^verbatim>\<open>House.calculateData\<close> computes 360 principal portions, their sum
  is the principal, and the remaining principal after the last of them is 0. (In exact
  arithmetic: the rounding of the floating-point operations is not modelled.)
\<close>

theorem amortization_300000:
  assumes "30 \<le> years gi"
  shows "\<exists>s. House_run
           (House_new gi ins hoa (Fin 300000) d (Fin (6 / 100)) 30 ptax a imp maint) = Inr s
     \<and> length (principalPortions (loan s)) = 360
     \<and> foldl (+) (Fin 0) (principalPortions (loan s)) = Fin 300000
     \<and> remainingPrincipal (loan s) = Fin 0"
proof -
  have m: "min (years gi) 30 = 30"
    using assms by simp
  have one: "1 < (1 + (6 / 100) / 12 :: real) ^ (30 * 12)"
    by (rule growth_exceeds_one) simp_all
  from House_run_schedule [of 300000 "6 / 100" 30 gi ins hoa d ptax a imp maint]
  obtain s where s:
    "House_run (House_new gi ins hoa (Fin 300000) d (Fin (6 / 100)) 30 ptax a imp maint) = Inr s"
    "remainingPrincipal (loan s)
       = Fin (balance_after 300000 ((6 / 100) / 12) (30 * 12) (12 * min (years gi) 30))"
    "principalPortions (loan s)
       = map (\<lambda>i. Fin (balance_after 300000 ((6 / 100) / 12) (30 * 12) i
                         - balance_after 300000 ((6 / 100) / 12) (30 * 12) (Suc i)))
           [0..<12 * min (years gi) 30]"
    by auto
  have "remainingPrincipal (loan s) = Fin 0"
    unfolding s(2) m using balance_after_end [of 300000 "(6 / 100) / 12" "30 * 12"] by simp
  moreover have "length (principalPortions (loan s)) = 360"
    unfolding s(3) m by simp
  moreover have "foldl (+) (Fin 0) (principalPortions (loan s)) = Fin 300000"
    unfolding s(3) m foldl_plus_Fin portions_telescope
    using balance_after_end [of 300000 "(6 / 100) / 12" "30 * 12"]
      balance_after_0 [OF one, of 300000]
    by simp
  ultimately show ?thesis
    using s(1) by blast
qed

theorem amortization_300000_witness:
  "30 \<le> years scenario_profile
   \<and> (\<exists>s. House_run
           (House_new scenario_profile (Fin 100) (Fin 0) (Fin 300000) (Fin 60000)
              (Fin (6 / 100)) 30 (Fin 4000) (Fin (3 / 100)) (Fin 5000) (Fin 2000)) = Inr s
     \<and> length (principalPortions (loan s)) = 360
     \<and> foldl (+) (Fin 0) (principalPortions (loan s)) = Fin 300000
     \<and> remainingPrincipal (loan s) = Fin 0)"
proof -
  have h: "30 \<le> years scenario_profile"
    by (simp add: years_def scenario_profile_def)
  show ?thesis
    using h amortization_300000 [OF h] by blast
qed

section \<open>Healthcare\<close>

text \<open>What the loop computes before Medicare, without long-term care: the premium grows by
  the profile's rate divided by 100.\<close>

lemma HealthcareCosts_premium_growth:
  assumes "i < years gi" and "startAge gi + int i < 65" and "\<not> includeLongTermCare cfg"
    and "inflation gi = Fin x"
  shows "\<exists>this. HealthcareCosts_calculateData (HealthcareCosts_new gi cfg) = Inr this
     \<and> monthlyPremiums (healthcareData this ! i)
         = preMedicareMonthlyPremium cfg * Fin ((1 + x / 100) ^ i)"
proof -
  define P where "P k s \<longleftrightarrow>
      HealthcareCosts.generalInformation s = gi \<and> config s = cfg
      \<and> medicareEligibleAge s = 65 \<and> length (healthcareData s) = k
      \<and> (\<forall>k'<k. startAge gi + int k' < 65 \<longrightarrow>
            monthlyPremiums (healthcareData s ! k')
              = preMedicareMonthlyPremium cfg * Fin ((1 + x / 100) ^ k'))"
    for k and s :: HealthcareCosts
  have init: "P 0 (HealthcareCosts_new gi cfg)"
    by (simp add: P_def HealthcareCosts_new_def)
  have step: "\<exists>s'. HealthcareCosts_year k s = Inr s' \<and> P (Suc k) s'" if "P k s" for k s
    using that assms(3,4)
    by (auto simp: P_def HealthcareCosts_year_def Let_def nth_append less_Suc_eq)
  have "\<exists>s. for_loop HealthcareCosts_year (years gi) (HealthcareCosts_new gi cfg) = Inr s
      \<and> P (years gi) s"
    by (rule for_loop_total [where P = P]) (simp_all add: init step)
  moreover have "HealthcareCosts.generalInformation (HealthcareCosts_new gi cfg) = gi"
    by (simp add: HealthcareCosts_new_def)
  ultimately show ?thesis
    using assms(1,2) by (auto simp: HealthcareCosts_calculateData_def P_def)
qed

text \<open>
  C1. The profile's inflation is the decimal rate (0.03), and
  \<^verbatim>\<open>HealthcareCosts.calculateData\<close> divides it by 100 again: for ages 62 to 64 and the
  default configuration the monthly premiums are 800, 800.24 and 800.480072, not
  800 \<times> 1.03^i, and the out-of-pocket costs are 8000, 8002.40 and 8004.80072, not
  8000 \<times> 1.03^i.
\<close>

theorem healthcare_inflation_divided_again:
  "inflation short_profile = Fin (3 / 100)
   \<and> healthcare_series monthlyPremiums
       (HealthcareCosts_calculateData (HealthcareCosts_new short_profile HealthcareConfig_default))
     = Inr [Fin 800, Fin 800.24, Fin 800.480072]
   \<and> healthcare_series monthlyPremiums
       (HealthcareCosts_calculateData (HealthcareCosts_new short_profile HealthcareConfig_default))
     \<noteq> Inr [Fin 800, Fin (800 * (1 + 3 / 100)), Fin (800 * (1 + 3 / 100) ^ 2)]
   \<and> healthcare_series outOfPocket
       (HealthcareCosts_calculateData (HealthcareCosts_new short_profile HealthcareConfig_default))
     = Inr [Fin 8000, Fin 8002.4, Fin 8004.80072]
   \<and> healthcare_series outOfPocket
       (HealthcareCosts_calculateData (HealthcareCosts_new short_profile HealthcareConfig_default))
     \<noteq> Inr [Fin 8000, Fin (8000 * (1 + 3 / 100)), Fin (8000 * (1 + 3 / 100) ^ 2)]"
  by (simp add: HealthcareCosts_calculateData_def HealthcareCosts_new_def short_profile_def
      years_def HealthcareConfig_default_def HealthcareCosts_year_def eval_nat_numeral Let_def
      healthcare_series_def)


section \<open>Investments\<close>

text \<open>The loop over the scenarios: one value per scenario, each the value that the body
  computes for it.\<close>

lemma push_loop:
  assumes "for_loop (push_value f) m [] = Inr vs"
  shows "length vs = m \<and> (\<forall>j<m. f j = Inr (vs ! j))"
proof -
  define P where "P j ws \<longleftrightarrow> length ws = j \<and> (\<forall>k<j. f k = Inr (ws ! k))" for j ws
  have "P m vs"
  proof (rule for_loop_invariant [OF assms, where P = P])
    show "P 0 []" by (simp add: P_def)
  next
    fix j ws ws'
    assume "j < m" "P j ws" "push_value f j ws = Inr ws'"
    then show "P (Suc j) ws'"
      by (auto simp: P_def push_value_def and_then_eq_Inr nth_append less_Suc_eq)
  qed
  then show ?thesis by (simp add: P_def)
qed

text \<open>A loop whose iterations each push one record onto \<^verbatim>\<open>investmentData\<close> and change
  nothing else: started on a fresh object, it leaves one record per iteration, and the
  record of iteration \<open>i\<close> is the one that the body computes from the records before it.\<close>

lemma appending_loop:
  fixes this :: "'a GenericInvestment_scheme"
  assumes run: "for_loop body n this = Inr t"
    and fresh: "investmentData this = []"
    and app: "\<And>i u u'. body i u = Inr u' \<Longrightarrow>
               \<exists>y. u' = u\<lparr>investmentData := investmentData u @ [y]\<rparr>"
  shows "length (investmentData t) = n
     \<and> (\<forall>i<n. body i (this\<lparr>investmentData := take i (investmentData t)\<rparr>)
            = Inr (this\<lparr>investmentData := take (Suc i) (investmentData t)\<rparr>))"
proof -
  define P where "P i u \<longleftrightarrow>
      u = this\<lparr>investmentData := investmentData u\<rparr>
      \<and> length (investmentData u) = i
      \<and> (\<forall>k<i. body k (this\<lparr>investmentData := take k (investmentData u)\<rparr>)
            = Inr (this\<lparr>investmentData := take (Suc k) (investmentData u)\<rparr>))"
    for i and u :: "'a GenericInvestment_scheme"
  have "P n t"
  proof (rule for_loop_invariant [OF run, where P = P])
    show "P 0 this" using fresh by (simp add: P_def)
  next
    fix i u u'
    assume "i < n" and P: "P i u" and body: "body i u = Inr u'"
    from app [OF body] obtain y where u': "u' = u\<lparr>investmentData := investmentData u @ [y]\<rparr>"
      by blast
    from P have u: "u = this\<lparr>investmentData := investmentData u\<rparr>"
      and len: "length (investmentData u) = i"
      and old: "\<forall>k<i. body k (this\<lparr>investmentData := take k (investmentData u)\<rparr>)
            = Inr (this\<lparr>investmentData := take (Suc k) (investmentData u)\<rparr>)"
      by (simp_all add: P_def)
    have D: "investmentData u' = investmentData u @ [y]"
      by (simp add: u')
    have this': "u' = this\<lparr>investmentData := investmentData u @ [y]\<rparr>"
      by (subst u', subst u) simp
    have "body k (this\<lparr>investmentData := take k (investmentData u')\<rparr>)
            = Inr (this\<lparr>investmentData := take (Suc k) (investmentData u')\<rparr>)"
      if "k < Suc i" for k
    proof (cases "k < i")
      case True
      with old len show ?thesis by (simp add: D)
    next
      case False
      with that have "k = i" by simp
      then show ?thesis
        using len body u this' by (simp add: D)
    qed
    then show "P (Suc i) u'"
      using len this' by (simp add: P_def D)
  qed
  then show ?thesis by (simp add: P_def)
qed

lemma NonTaxable_year_appends:
  assumes "NonTaxable_year hs ed h i u = Inr u'"
  shows "\<exists>y. u' = u\<lparr>investmentData := investmentData u @ [y]\<rparr>"
  using assms by (auto simp: NonTaxable_year_def and_then_eq_Inr)

lemma Taxable_year_appends:
  assumes "Taxable_year hs ed i u = Inr u'"
  shows "\<exists>y. u' = u\<lparr>investmentData := investmentData u @ [y]\<rparr>"
  using assms by (auto simp: Taxable_year_def and_then_eq_Inr)


lemma previousValue_prefix:
  fixes this :: "'a GenericInvestment_scheme"
  assumes "i \<le> length D" and "0 < i \<Longrightarrow> j < length (InvestmentYear.value (D ! (i - 1)))"
  shows "previousValue (this\<lparr>investmentData := take i D\<rparr>) i j
     = Inr (if i = 0 then amount this else InvestmentYear.value (D ! (i - 1)) ! j)"
  using assms by (cases "i = 0") (simp_all add: previousValue_def number_at_def)

lemma uminus_times_jsnum: "- a * b = - (a * b)" for a b :: jsnum
  by (cases a; cases b) auto

text \<open>The records of a run of the non-taxable account on a fresh object.\<close>

lemma NonTaxable_entry:
  assumes run: "NonTaxableInvestment_calculateData
                  (NonTaxableInvestment_new gi a r c) hs ed h = Inr t"
    and i: "i < years gi"
  shows "length (investmentData t) = years gi
     \<and> InvestmentYear.age (investmentData t ! i) = startAge gi + int i
     \<and> length (InvestmentYear.value (investmentData t ! i)) = length hs
     \<and> (\<exists>healthcare. healthcareCostOf h i = Inr healthcare
          \<and> (\<forall>j<length hs.
                NonTaxable_currentValue
                  ((NonTaxableInvestment_new gi a r c)
                     \<lparr>investmentData := take i (investmentData t)\<rparr>) hs ed healthcare i j
                = Inr (InvestmentYear.value (investmentData t ! i) ! j)))"
proof -
  define this where "this = NonTaxableInvestment_new gi a r c"
  have fresh: "investmentData this = []" and gi: "GenericInvestment.generalInformation this = gi"
    by (simp_all add: this_def NonTaxableInvestment_new_def)
  from run have loop: "for_loop (NonTaxable_year hs ed h) (years gi) this = Inr t"
    by (simp add: NonTaxableInvestment_calculateData_def this_def [symmetric] gi)
  have "length (investmentData t) = years gi
     \<and> (\<forall>i<years gi.
          NonTaxable_year hs ed h i (this\<lparr>investmentData := take i (investmentData t)\<rparr>)
            = Inr (this\<lparr>investmentData := take (Suc i) (investmentData t)\<rparr>))"
    by (rule appending_loop [OF loop fresh]) (rule NonTaxable_year_appends)
  with i have len: "length (investmentData t) = years gi"
    and year: "NonTaxable_year hs ed h i (this\<lparr>investmentData := take i (investmentData t)\<rparr>)
            = Inr (this\<lparr>investmentData := take (Suc i) (investmentData t)\<rparr>)"
    by blast+
  from year obtain healthcare vs where
    hc: "healthcareCostOf h i = Inr healthcare"
    and vs: "for_loop (push_value (NonTaxable_currentValue
               (this\<lparr>investmentData := take i (investmentData t)\<rparr>) hs ed healthcare i))
               (length hs) [] = Inr vs"
    and eq: "this\<lparr>investmentData := take i (investmentData t)
               @ [\<lparr>InvestmentYear.age = startAge gi + int i, value = vs\<rparr>]\<rparr>
       = this\<lparr>investmentData := take (Suc i) (investmentData t)\<rparr>"
    by (auto simp: NonTaxable_year_def and_then_eq_Inr gi)
  from arg_cong [OF eq, of investmentData]
  have rec: "take (Suc i) (investmentData t)
       = take i (investmentData t) @ [\<lparr>InvestmentYear.age = startAge gi + int i, value = vs\<rparr>]"
    by simp
  from rec i len have "investmentData t ! i = \<lparr>InvestmentYear.age = startAge gi + int i, value = vs\<rparr>"
    by (simp add: take_Suc_conv_app_nth)
  with push_loop [OF vs] hc len show ?thesis
    unfolding this_def by auto
qed

lemma Taxable_entry:
  assumes run: "TaxableInvestment_calculateData
                  (TaxableInvestment_new gi a r c tax) hs ed = Inr t"
    and i: "i < years gi"
  shows "length (investmentData t) = years gi
     \<and> InvestmentYear.age (investmentData t ! i) = startAge gi + int i
     \<and> length (InvestmentYear.value (investmentData t ! i)) = length hs
     \<and> (\<forall>j<length hs.
                Taxable_currentValue
                  ((TaxableInvestment_new gi a r c tax)
                     \<lparr>investmentData := take i (investmentData t)\<rparr>) hs ed i j
                = Inr (InvestmentYear.value (investmentData t ! i) ! j))"
proof -
  define this where "this = TaxableInvestment_new gi a r c tax"
  have fresh: "investmentData this = []" and gi: "GenericInvestment.generalInformation this = gi"
    by (simp_all add: this_def TaxableInvestment_new_def)
  from run have loop: "for_loop (Taxable_year hs ed) (years gi) this = Inr t"
    by (simp add: TaxableInvestment_calculateData_def this_def [symmetric] gi)
  have "length (investmentData t) = years gi
     \<and> (\<forall>i<years gi.
          Taxable_year hs ed i (this\<lparr>investmentData := take i (investmentData t)\<rparr>)
            = Inr (this\<lparr>investmentData := take (Suc i) (investmentData t)\<rparr>))"
    by (rule appending_loop [OF loop fresh]) (rule Taxable_year_appends)
  with i have len: "length (investmentData t) = years gi"
    and year: "Taxable_year hs ed i (this\<lparr>investmentData := take i (investmentData t)\<rparr>)
            = Inr (this\<lparr>investmentData := take (Suc i) (investmentData t)\<rparr>)"
    by blast+
  from year obtain vs where
    vs: "for_loop (push_value (Taxable_currentValue
               (this\<lparr>investmentData := take i (investmentData t)\<rparr>) hs ed i))
               (length hs) [] = Inr vs"
    and eq: "this\<lparr>investmentData := take i (investmentData t)
               @ [\<lparr>InvestmentYear.age = startAge gi + int i, value = vs\<rparr>]\<rparr>
       = this\<lparr>investmentData := take (Suc i) (investmentData t)\<rparr>"
    by (auto simp: Taxable_year_def and_then_eq_Inr gi)
  from arg_cong [OF eq, of investmentData]
  have rec: "take (Suc i) (investmentData t)
       = take i (investmentData t) @ [\<lparr>InvestmentYear.age = startAge gi + int i, value = vs\<rparr>]"
    by simp
  from rec i len have "investmentData t ! i = \<lparr>InvestmentYear.age = startAge gi + int i, value = vs\<rparr>"
    by (simp add: take_Suc_conv_app_nth)
  with push_loop [OF vs] len show ?thesis
    unfolding this_def by auto
qed

text \<open>The balance of year \<open>i\<close> and scenario \<open>j\<close> in terms of the balance of the year
  before.\<close>

lemma NonTaxable_balance:
  assumes run: "NonTaxableInvestment_calculateData
                  (NonTaxableInvestment_new gi a r c) hs ed h = Inr t"
    and i: "i < years gi" and j: "j < length hs"
  defines "previous \<equiv> (if i = 0 then a else InvestmentYear.value (investmentData t ! (i - 1)) ! j)"
  shows "\<exists>healthcare. healthcareCostOf h i = Inr healthcare
     \<and> (if int i < retirementAge gi - startAge gi
        then InvestmentYear.value (investmentData t ! i) ! j
               = (previous + c * Fin 12) * (Fin 1 + r)
        else \<exists>housing living.
               housingCost hs j i = Inr housing \<and> livingCost ed i = Inr living
               \<and> InvestmentYear.value (investmentData t ! i) ! j
                   = (previous -
                       (let shortfall = housing + living + healthcare
                              - socialSecurity gi * Fin 12 - otherRetirementIncome gi * Fin 12
                        in if Fin 0 < shortfall then shortfall else Fin 0))
                     * (Fin 1 + r))"
proof -
  define p where "p = (NonTaxableInvestment_new gi a r c)
                     \<lparr>investmentData := take i (investmentData t)\<rparr>"
  have fields: "GenericInvestment.generalInformation p = gi" "monthlyContribution p = c"
    "annualRate p = r"
    by (simp_all add: p_def NonTaxableInvestment_new_def)
  from NonTaxable_entry [OF run i] j obtain healthcare where
    len: "length (investmentData t) = years gi"
    and hc: "healthcareCostOf h i = Inr healthcare"
    and cur: "NonTaxable_currentValue p hs ed healthcare i j
                = Inr (InvestmentYear.value (investmentData t ! i) ! j)"
    unfolding p_def by blast
  have before: "j < length (InvestmentYear.value (investmentData t ! (i - 1)))" if "0 < i"
    using NonTaxable_entry [OF run, of "i - 1"] i j that by simp
  have prev: "previousValue p i j = Inr previous"
    using previousValue_prefix [of i "investmentData t" j "NonTaxableInvestment_new gi a r c"]
      i len before
    by (simp add: previous_def p_def NonTaxableInvestment_new_def)
  from cur hc show ?thesis
    by (auto simp: NonTaxable_currentValue_def prev fields Let_def
        and_then_eq_Inr minus_jsnum_def split: if_splits)
qed

lemma Taxable_balance:
  assumes run: "TaxableInvestment_calculateData
                  (TaxableInvestment_new gi a r c tax) hs ed = Inr t"
    and i: "i < years gi" and j: "j < length hs"
  defines "previous \<equiv> (if i = 0 then a else InvestmentYear.value (investmentData t ! (i - 1)) ! j)"
  shows "if int i < retirementAge gi - startAge gi
        then InvestmentYear.value (investmentData t ! i) ! j
               = (previous + c * Fin 12) * (Fin 1 + r)
        else \<exists>housing living.
               housingCost hs j i = Inr housing \<and> livingCost ed i = Inr living
               \<and> InvestmentYear.value (investmentData t ! i) ! j
                   = (previous -
                       (let shortfall = housing + living
                              - socialSecurity gi * Fin 12 - otherRetirementIncome gi * Fin 12
                        in if Fin 0 < shortfall then shortfall * (Fin 1 + tax) else Fin 0))
                     * (Fin 1 + r)"
proof -
  define p where "p = (TaxableInvestment_new gi a r c tax)
                     \<lparr>investmentData := take i (investmentData t)\<rparr>"
  have fields: "GenericInvestment.generalInformation p = gi" "monthlyContribution p = c"
    "annualRate p = r" "taxRate p = tax"
    by (simp_all add: p_def TaxableInvestment_new_def)
  from Taxable_entry [OF run i] j have
    len: "length (investmentData t) = years gi"
    and cur: "Taxable_currentValue p hs ed i j
                = Inr (InvestmentYear.value (investmentData t ! i) ! j)"
    unfolding p_def by blast+
  have before: "j < length (InvestmentYear.value (investmentData t ! (i - 1)))" if "0 < i"
    using Taxable_entry [OF run, of "i - 1"] i j that by simp
  have prev: "previousValue p i j = Inr previous"
    using previousValue_prefix [of i "investmentData t" j "TaxableInvestment_new gi a r c tax"]
      i len before
    by (simp add: previous_def p_def TaxableInvestment_new_def)
  from cur show ?thesis
    by (auto simp: Taxable_currentValue_def prev fields Let_def
        and_then_eq_Inr minus_jsnum_def uminus_times_jsnum split: if_splits)
qed

lemma housingCost_agree:
  assumes "map (take k \<circ> map yearlyCosts) hs' = map (take k \<circ> map yearlyCosts) hs"
    and "i < k"
  shows "housingCost hs' j i = housingCost hs j i"
proof -
  from assms(1) have len: "length hs' = length hs"
    by (metis length_map)
  show ?thesis
  proof (cases "j < length hs")
    case False
    with len show ?thesis by (simp add: housingCost_def element_def)
  next
    case True
    with assms(1) len have eq: "take k (map yearlyCosts (hs' ! j)) = take k (map yearlyCosts (hs ! j))"
      by (metis (mono_tags, lifting) comp_apply nth_map)
    from arg_cong [OF eq, of length] assms(2)
    have l: "i < length (hs' ! j) \<longleftrightarrow> i < length (hs ! j)"
      by (simp add: min_def split: if_splits)
    have "yearlyCosts (hs' ! j ! i) = yearlyCosts (hs ! j ! i)" if "i < length (hs ! j)"
      using arg_cong [OF eq, of "\<lambda>xs. xs ! i"] that l assms(2) by simp
    with True len l show ?thesis
      by (simp add: housingCost_def element_def)
  qed
qed

lemma NonTaxable_length:
  assumes run: "NonTaxableInvestment_calculateData
                  (NonTaxableInvestment_new gi a r c) hs ed h = Inr t"
  shows "length (investmentData t) = years gi"
proof -
  define this where "this = NonTaxableInvestment_new gi a r c"
  have fresh: "investmentData this = []" and gi: "GenericInvestment.generalInformation this = gi"
    by (simp_all add: this_def NonTaxableInvestment_new_def)
  from run have loop: "for_loop (NonTaxable_year hs ed h) (years gi) this = Inr t"
    by (simp add: NonTaxableInvestment_calculateData_def this_def [symmetric] gi)
  have "length (investmentData t) = years gi
     \<and> (\<forall>i<years gi.
          NonTaxable_year hs ed h i (this\<lparr>investmentData := take i (investmentData t)\<rparr>)
            = Inr (this\<lparr>investmentData := take (Suc i) (investmentData t)\<rparr>))"
    by (rule appending_loop [OF loop fresh]) (rule NonTaxable_year_appends)
  then show ?thesis ..
qed

lemma NonTaxable_accumulation:
  assumes run: "NonTaxableInvestment_calculateData
                  (NonTaxableInvestment_new gi a r c) hs ed h = Inr t"
    and i: "i < years gi" and j: "j < length hs"
    and pre: "int i < retirementAge gi - startAge gi"
  shows "InvestmentYear.value (investmentData t ! i) ! j
       = ((if i = 0 then a else InvestmentYear.value (investmentData t ! (i - 1)) ! j)
            + c * Fin 12) * (Fin 1 + r)"
proof -
  from NonTaxable_balance [OF run i j] obtain healthcare where
    "if int i < retirementAge gi - startAge gi
        then InvestmentYear.value (investmentData t ! i) ! j
               = ((if i = 0 then a else InvestmentYear.value (investmentData t ! (i - 1)) ! j)
                   + c * Fin 12) * (Fin 1 + r)
        else \<exists>housing living.
               housingCost hs j i = Inr housing \<and> livingCost ed i = Inr living
               \<and> InvestmentYear.value (investmentData t ! i) ! j
                   = ((if i = 0 then a else InvestmentYear.value (investmentData t ! (i - 1)) ! j) -
                       (let shortfall = housing + living + healthcare
                              - socialSecurity gi * Fin 12 - otherRetirementIncome gi * Fin 12
                        in if Fin 0 < shortfall then shortfall else Fin 0))
                     * (Fin 1 + r)"
    by blast
  with pre show ?thesis by (simp only: if_True)
qed

lemma NonTaxable_preretirement_equal:
  assumes run: "NonTaxableInvestment_calculateData
                  (NonTaxableInvestment_new gi a r c) hs ed h = Inr t"
    and "i < years gi" and "int i < retirementAge gi - startAge gi"
    and "j1 < length hs" and "j2 < length hs"
  shows "InvestmentYear.value (investmentData t ! i) ! j1
       = InvestmentYear.value (investmentData t ! i) ! j2"
  using assms(2,3)
proof (induction i)
  case 0
  then show ?case
    using NonTaxable_accumulation [OF run, of 0 j1] NonTaxable_accumulation [OF run, of 0 j2]
      assms(4,5)
    by simp
next
  case (Suc i)
  then have "InvestmentYear.value (investmentData t ! i) ! j1
       = InvestmentYear.value (investmentData t ! i) ! j2"
    by simp
  then show ?case
    using NonTaxable_accumulation [OF run, of "Suc i" j1]
      NonTaxable_accumulation [OF run, of "Suc i" j2] assms(4,5) Suc.prems
    by simp
qed

lemma NonTaxable_currentValue_agree:
  assumes "housingCost hs' j i = housingCost hs j i"
  shows "NonTaxable_currentValue p hs' ed hc i j = NonTaxable_currentValue p hs ed hc i j"
  by (simp only: NonTaxable_currentValue_def assms)

lemma NonTaxable_prefix_agree:
  assumes run: "NonTaxableInvestment_calculateData
                  (NonTaxableInvestment_new gi a r c) hs ed h = Inr t"
    and run': "NonTaxableInvestment_calculateData
                  (NonTaxableInvestment_new gi a r c) hs' ed h = Inr t'"
    and agree: "map (take k \<circ> map yearlyCosts) hs' = map (take k \<circ> map yearlyCosts) hs"
  shows "take k (investmentData t') = take k (investmentData t)"
proof -
  from agree have m: "length hs' = length hs"
    by (metis length_map)
  have entry: "investmentData t' ! i = investmentData t ! i" if "i < k" "i < years gi" for i
    using that
  proof (induction i rule: less_induct)
    case (less i)
    from NonTaxable_entry [OF run less.prems(2)] obtain hc where
      D: "length (investmentData t) = years gi"
        "InvestmentYear.age (investmentData t ! i) = startAge gi + int i"
        "length (InvestmentYear.value (investmentData t ! i)) = length hs"
        "healthcareCostOf h i = Inr hc"
        "\<forall>j<length hs. NonTaxable_currentValue
                  ((NonTaxableInvestment_new gi a r c)
                     \<lparr>investmentData := take i (investmentData t)\<rparr>) hs ed hc i j
                = Inr (InvestmentYear.value (investmentData t ! i) ! j)"
      by blast
    from NonTaxable_entry [OF run' less.prems(2)] D(4) have
      D': "length (investmentData t') = years gi"
        "InvestmentYear.age (investmentData t' ! i) = startAge gi + int i"
        "length (InvestmentYear.value (investmentData t' ! i)) = length hs'"
        "\<forall>j<length hs'. NonTaxable_currentValue
                  ((NonTaxableInvestment_new gi a r c)
                     \<lparr>investmentData := take i (investmentData t')\<rparr>) hs' ed hc i j
                = Inr (InvestmentYear.value (investmentData t' ! i) ! j)"
      by auto
    have "take i (investmentData t') = take i (investmentData t)"
    proof (rule nth_take_lemma)
      show "i \<le> length (investmentData t')" "i \<le> length (investmentData t)"
        using less.prems(2) D(1) D'(1) by simp_all
      show "i' < i \<longrightarrow> investmentData t' ! i' = investmentData t ! i'" for i'
        using less.IH [of i'] less.prems by simp
    qed
    then have prefix: "(NonTaxableInvestment_new gi a r c)
                     \<lparr>investmentData := take i (investmentData t')\<rparr>
        = (NonTaxableInvestment_new gi a r c)\<lparr>investmentData := take i (investmentData t)\<rparr>"
      by simp
    have "InvestmentYear.value (investmentData t' ! i) ! j
        = InvestmentYear.value (investmentData t ! i) ! j" if j: "j < length hs" for j
    proof -
      have "Inr (InvestmentYear.value (investmentData t' ! i) ! j)
          = NonTaxable_currentValue
              ((NonTaxableInvestment_new gi a r c)
                 \<lparr>investmentData := take i (investmentData t)\<rparr>) hs' ed hc i j"
        using D'(4) j m prefix by simp
      also have "\<dots> = NonTaxable_currentValue
              ((NonTaxableInvestment_new gi a r c)
                 \<lparr>investmentData := take i (investmentData t)\<rparr>) hs ed hc i j"
        by (rule NonTaxable_currentValue_agree) (rule housingCost_agree [OF agree less.prems(1)])
      also have "\<dots> = Inr (InvestmentYear.value (investmentData t ! i) ! j)"
        using D(5) j by simp
      finally show ?thesis by simp
    qed
    then have "\<forall>j<length hs. InvestmentYear.value (investmentData t' ! i) ! j
        = InvestmentYear.value (investmentData t ! i) ! j"
      by blast
    with D(3) D'(3) m have "InvestmentYear.value (investmentData t' ! i)
        = InvestmentYear.value (investmentData t ! i)"
      by (simp add: list_eq_iff_nth_eq)
    with D(2) D'(2) show ?case by simp
  qed
  have len: "length (investmentData t) = years gi" "length (investmentData t') = years gi"
    using NonTaxable_length [OF run] NonTaxable_length [OF run'] by simp_all
  have "take (min k (years gi)) (investmentData t') = take (min k (years gi)) (investmentData t)"
  proof (rule nth_take_lemma)
    show "min k (years gi) \<le> length (investmentData t')"
      "min k (years gi) \<le> length (investmentData t)"
      using len by simp_all
    show "i < min k (years gi) \<longrightarrow> investmentData t' ! i = investmentData t ! i" for i
      using entry [of i] by simp
  qed
  with len show ?thesis
    by (simp add: min_def split: if_splits)
qed

text \<open>
  C3. In a run of \<^verbatim>\<open>NonTaxableInvestment.calculateData\<close> on a fresh account, in every
  year before retirement the balances of all scenarios are equal. And when two runs
  differ only in housing costs, and the housing-cost series of every scenario agree in
  the first \<open>k\<close> years, then the first \<open>k\<close> records of the two balance series are
  identical.
\<close>

theorem independent_scenario_balances:
  assumes run: "NonTaxableInvestment_calculateData
                  (NonTaxableInvestment_new gi a r c) hs ed h = Inr t"
    and run': "NonTaxableInvestment_calculateData
                  (NonTaxableInvestment_new gi a r c) hs' ed h = Inr t'"
    and agree: "map (take k \<circ> map yearlyCosts) hs' = map (take k \<circ> map yearlyCosts) hs"
  shows "(\<forall>i j1 j2. i < years gi \<longrightarrow> startAge gi + int i < retirementAge gi
            \<longrightarrow> j1 < length hs \<longrightarrow> j2 < length hs
            \<longrightarrow> InvestmentYear.value (investmentData t ! i) ! j1
                = InvestmentYear.value (investmentData t ! i) ! j2)
     \<and> take k (investmentData t') = take k (investmentData t)"
proof -
  have "InvestmentYear.value (investmentData t ! i) ! j1
                = InvestmentYear.value (investmentData t ! i) ! j2"
    if "i < years gi" "startAge gi + int i < retirementAge gi" "j1 < length hs" "j2 < length hs"
    for i j1 j2
    using NonTaxable_preretirement_equal [OF run that(1) _ that(3,4)] that(2) by simp
  with NonTaxable_prefix_agree [OF run run' agree] show ?thesis
    by blast
qed

lemmas investment_defs = NonTaxableInvestment_calculateData_def NonTaxableInvestment_new_def
  NonTaxable_year_def NonTaxable_currentValue_def TaxableInvestment_calculateData_def
  TaxableInvestment_new_def Taxable_year_def Taxable_currentValue_def push_value_def
  previousValue_def housingCost_def livingCost_def healthcareCostOf_def number_at_def
  element_def years_def eval_nat_numeral Let_def minus_jsnum_def

theorem independent_scenario_balances_witness:
  "\<exists>t t'.
     NonTaxableInvestment_calculateData
       (NonTaxableInvestment_new short_profile (Fin 500000) (Fin (7 / 100)) (Fin 500))
       example_housing example_expenses None = Inr t
     \<and> NonTaxableInvestment_calculateData
       (NonTaxableInvestment_new short_profile (Fin 500000) (Fin (7 / 100)) (Fin 500))
       example_housing_changed example_expenses None = Inr t'
     \<and> map (take 2 \<circ> map yearlyCosts) example_housing_changed
         = map (take 2 \<circ> map yearlyCosts) example_housing
     \<and> InvestmentYear.value (investmentData t ! 0) ! 0
         = InvestmentYear.value (investmentData t ! 0) ! 1
     \<and> take 2 (investmentData t') = take 2 (investmentData t)"
proof -
  obtain t where t: "NonTaxableInvestment_calculateData
       (NonTaxableInvestment_new short_profile (Fin 500000) (Fin (7 / 100)) (Fin 500))
       example_housing example_expenses None = Inr t"
    by (simp add: investment_defs short_profile_def example_housing_def example_expenses_def)
  obtain t' where t': "NonTaxableInvestment_calculateData
       (NonTaxableInvestment_new short_profile (Fin 500000) (Fin (7 / 100)) (Fin 500))
       example_housing_changed example_expenses None = Inr t'"
    by (simp add: investment_defs short_profile_def example_housing_def example_expenses_def
        example_housing_changed_def)
  have agree: "map (take 2 \<circ> map yearlyCosts) example_housing_changed
         = map (take 2 \<circ> map yearlyCosts) example_housing"
    by (simp add: example_housing_def example_housing_changed_def eval_nat_numeral)
  have side: "0 < years short_profile"
    "startAge short_profile + int 0 < retirementAge short_profile"
    "0 < length example_housing" "1 < length example_housing"
    by (simp_all add: years_def short_profile_def example_housing_def)
  from independent_scenario_balances [OF t t' agree] side t t' agree
  show ?thesis by blast
qed

text \<open>The three cost accessors return the field of the record of the year, when it
  exists.\<close>

lemma housingCost_eq_Inr:
  "housingCost hs j i = Inr x
     \<longleftrightarrow> j < length hs \<and> i < length (hs ! j) \<and> x = yearlyCosts (hs ! j ! i)"
  by (auto simp: housingCost_def element_def and_then_eq_Inr)

lemma livingCost_eq_Inr:
  "livingCost ed i = Inr x \<longleftrightarrow> i < length ed \<and> x = yearlySpending (ed ! i)"
  by (auto simp: livingCost_def element_def and_then_eq_Inr)

lemma healthcareCostOf_eq_Inr:
  "healthcareCostOf h i = Inr x
     \<longleftrightarrow> (case h of None \<Rightarrow> x = Fin 0 | Some ys \<Rightarrow> i < length ys \<and> x = annualCost (ys ! i))"
  by (auto simp: healthcareCostOf_def element_def and_then_eq_Inr split: option.splits)

text \<open>
  C5. In runs of the taxable and of the non-taxable account on fresh objects, the balance
  of year \<open>i\<close> and scenario \<open>j\<close> comes from the balance of the year before (the initial
  amount in year 0) as follows. Before retirement, both variants give
  (previous + monthlyContribution \<times> 12) \<times> (1 + annualRate). From retirement on, the
  shortfall is the scenario's housing cost of the year (\<^verbatim>\<open>housingData[i].yearlyCosts\<close>)
  plus the living cost of the year (\<^verbatim>\<open>expensesData[i].yearlySpending\<close>), plus, for the
  non-taxable account, the healthcare cost of the year (\<^verbatim>\<open>healthcareData[i].annualCost\<close>
  of the healthcare object when one is given, and 0 when none is), minus twelve months of
  social security and of other income. The taxable account withdraws
  shortfall \<times> (1 + taxRate), the non-taxable account exactly the shortfall, both nothing
  when the shortfall is not positive, and the rest grows by the annual rate.
\<close>

theorem withdrawal_variants:
  assumes taxable: "TaxableInvestment_calculateData
                      (TaxableInvestment_new gi a r c tax) hs ed = Inr T"
    and nontaxable: "NonTaxableInvestment_calculateData
                      (NonTaxableInvestment_new gi a r c) hs ed h = Inr N"
    and i: "i < years gi" and j: "j < length hs"
  shows "(case h of None \<Rightarrow> True | Some healthcareData' \<Rightarrow> i < length healthcareData')
     \<and> (if int i < retirementAge gi - startAge gi
        then InvestmentYear.value (investmentData T ! i) ! j
               = ((if i = 0 then a else InvestmentYear.value (investmentData T ! (i - 1)) ! j)
                    + c * Fin 12) * (Fin 1 + r)
           \<and> InvestmentYear.value (investmentData N ! i) ! j
               = ((if i = 0 then a else InvestmentYear.value (investmentData N ! (i - 1)) ! j)
                    + c * Fin 12) * (Fin 1 + r)
        else i < length (hs ! j) \<and> i < length ed
           \<and> InvestmentYear.value (investmentData T ! i) ! j
               = ((if i = 0 then a else InvestmentYear.value (investmentData T ! (i - 1)) ! j)
                   - (let shortfall = yearlyCosts (hs ! j ! i) + yearlySpending (ed ! i)
                            - socialSecurity gi * Fin 12 - otherRetirementIncome gi * Fin 12
                      in if Fin 0 < shortfall then shortfall * (Fin 1 + tax) else Fin 0))
                 * (Fin 1 + r)
           \<and> InvestmentYear.value (investmentData N ! i) ! j
               = ((if i = 0 then a else InvestmentYear.value (investmentData N ! (i - 1)) ! j)
                   - (let shortfall = yearlyCosts (hs ! j ! i) + yearlySpending (ed ! i)
                            + (case h of None \<Rightarrow> Fin 0
                               | Some healthcareData' \<Rightarrow> annualCost (healthcareData' ! i))
                            - socialSecurity gi * Fin 12 - otherRetirementIncome gi * Fin 12
                      in if Fin 0 < shortfall then shortfall else Fin 0))
                 * (Fin 1 + r))"
proof -
  from NonTaxable_balance [OF nontaxable i j] obtain healthcare where
    hc: "healthcareCostOf h i = Inr healthcare"
    and N: "if int i < retirementAge gi - startAge gi
        then InvestmentYear.value (investmentData N ! i) ! j
               = ((if i = 0 then a else InvestmentYear.value (investmentData N ! (i - 1)) ! j)
                    + c * Fin 12) * (Fin 1 + r)
        else \<exists>housing living.
               housingCost hs j i = Inr housing \<and> livingCost ed i = Inr living
               \<and> InvestmentYear.value (investmentData N ! i) ! j
                   = ((if i = 0 then a else InvestmentYear.value (investmentData N ! (i - 1)) ! j)
                       - (let shortfall = housing + living + healthcare
                                - socialSecurity gi * Fin 12 - otherRetirementIncome gi * Fin 12
                          in if Fin 0 < shortfall then shortfall else Fin 0))
                     * (Fin 1 + r)"
    by blast
  note T = Taxable_balance [OF taxable i j]
  from hc have read: "case h of None \<Rightarrow> True | Some healthcareData' \<Rightarrow> i < length healthcareData'"
    and cost: "healthcare = (case h of None \<Rightarrow> Fin 0
                               | Some healthcareData' \<Rightarrow> annualCost (healthcareData' ! i))"
    by (auto simp: healthcareCostOf_eq_Inr split: option.splits)
  show ?thesis
  proof (cases "int i < retirementAge gi - startAge gi")
    case True
    with read N T show ?thesis by simp
  next
    case False
    with N have "i < length (hs ! j) \<and> i < length ed
       \<and> InvestmentYear.value (investmentData N ! i) ! j
                   = ((if i = 0 then a else InvestmentYear.value (investmentData N ! (i - 1)) ! j)
                       - (let shortfall = yearlyCosts (hs ! j ! i) + yearlySpending (ed ! i)
                                + healthcare
                                - socialSecurity gi * Fin 12 - otherRetirementIncome gi * Fin 12
                          in if Fin 0 < shortfall then shortfall else Fin 0))
                     * (Fin 1 + r)"
      by (auto simp: housingCost_eq_Inr livingCost_eq_Inr)
    moreover from False T have "InvestmentYear.value (investmentData T ! i) ! j
               = ((if i = 0 then a else InvestmentYear.value (investmentData T ! (i - 1)) ! j)
                   - (let shortfall = yearlyCosts (hs ! j ! i) + yearlySpending (ed ! i)
                            - socialSecurity gi * Fin 12 - otherRetirementIncome gi * Fin 12
                      in if Fin 0 < shortfall then shortfall * (Fin 1 + tax) else Fin 0))
                 * (Fin 1 + r)"
      by (auto simp: housingCost_eq_Inr livingCost_eq_Inr)
    ultimately show ?thesis
      using False read unfolding cost by simp
  qed
qed

theorem withdrawal_variants_witness:
  "\<exists>T N.
     TaxableInvestment_calculateData
       (TaxableInvestment_new short_profile (Fin 500000) (Fin (7 / 100)) (Fin 500)
          (Fin (20 / 100)))
       example_housing example_expenses = Inr T
     \<and> NonTaxableInvestment_calculateData
       (NonTaxableInvestment_new short_profile (Fin 500000) (Fin (7 / 100)) (Fin 500))
       example_housing example_expenses (Some example_healthcare) = Inr N
     \<and> 1 < years short_profile \<and> 1 < length example_housing
     \<and> \<not> int 1 < retirementAge short_profile - startAge short_profile
     \<and> yearlyCosts (example_housing ! 1 ! 1) = Fin 7416
     \<and> yearlySpending (example_expenses ! 1) = Fin 61800
     \<and> annualCost (example_healthcare ! 1) = Fin 17605.28
     \<and> InvestmentYear.value (investmentData T ! 1) ! 1
         = (InvestmentYear.value (investmentData T ! 0) ! 1
              - Fin ((7416 + 61800 - 2000 * 12 - 0 * 12) * (1 + 20 / 100)))
           * (Fin 1 + Fin (7 / 100))
     \<and> InvestmentYear.value (investmentData N ! 1) ! 1
         = (InvestmentYear.value (investmentData N ! 0) ! 1
              - Fin (7416 + 61800 + 17605.28 - 2000 * 12 - 0 * 12))
           * (Fin 1 + Fin (7 / 100))"
proof -
  obtain T where T: "TaxableInvestment_calculateData
       (TaxableInvestment_new short_profile (Fin 500000) (Fin (7 / 100)) (Fin 500)
          (Fin (20 / 100)))
       example_housing example_expenses = Inr T"
    by (simp add: investment_defs short_profile_def example_housing_def example_expenses_def)
  obtain N where N: "NonTaxableInvestment_calculateData
       (NonTaxableInvestment_new short_profile (Fin 500000) (Fin (7 / 100)) (Fin 500))
       example_housing example_expenses (Some example_healthcare) = Inr N"
    by (simp add: investment_defs short_profile_def example_housing_def example_expenses_def
        example_healthcare_def)
  have i: "1 < years short_profile" and j: "1 < length example_housing"
    by (simp_all add: years_def short_profile_def example_housing_def)
  have costs: "yearlyCosts (example_housing ! 1 ! 1) = Fin 7416"
    "yearlySpending (example_expenses ! 1) = Fin 61800"
    "annualCost (example_healthcare ! 1) = Fin 17605.28"
    by (simp_all add: example_housing_def example_expenses_def example_healthcare_def)
  from withdrawal_variants [OF T N i j] costs T N i j
  show ?thesis
    by (auto simp: short_profile_def minus_jsnum_def)
qed

end
